theory Spec2Isabelle
  imports Main "HOL-Library.Sublist" "HOL-Library.Multiset"
begin

section \<open>Values exchanged with the store\<close>

text \<open>
  \<^verbatim>\<open>postgres-store.ts\<close> persists four kinds of entity (AgentInfo, Message,
  ToolCallRecord, Snapshot) in four relations of a PostgreSQL database. The embedding
  keeps the database as an explicit state: every SQL statement of the source is a function
  from a database to an error or a new database, and every method of \<^verbatim>\<open>PostgresStore\<close>
  is the composition of its statements in the order the source issues them.

  Document-valued parameters pass through \<^verbatim>\<open>JSON.stringify\<close>, a JSONB column and the
  driver's parser, which hand back the document up to the order of its keys; a JSONB column
  holds the document itself. What the driver returns for the other column types is what
  decides the type of a loaded field: a number for INTEGER, a boolean for BOOLEAN, a string
  for TEXT, but a decimal string for BIGINT (which is why \<^verbatim>\<open>aggregateStats\<close> calls
  \<^verbatim>\<open>parseInt\<close> on its counts) and a \<^verbatim>\<open>Date\<close> for TIMESTAMP.
\<close>

datatype json =
    JNull
  | JBool bool
  | JNum int
  | JStr string
  | JArr "json list"
  | JObj "(string \<times> json) list"

text \<open>JavaScript truthiness, which the source uses to decide whether an optional
  field is present (\<^verbatim>\<open>x ? f(x) : null\<close>, \<^verbatim>\<open>x || null\<close>, \<^verbatim>\<open>x || undefined\<close>).\<close>

fun js_truthy :: "json \<Rightarrow> bool" where
  "js_truthy JNull = False"
| "js_truthy (JBool b) = b"
| "js_truthy (JNum n) = (n \<noteq> 0)"
| "js_truthy (JStr s) = (s \<noteq> [])"
| "js_truthy (JArr xs) = True"
| "js_truthy (JObj kvs) = True"

text \<open>\<^verbatim>\<open>v ? JSON.stringify(v) : null\<close> on save and \<^verbatim>\<open>row.v || undefined\<close> on load, for a
  document; \<^verbatim>\<open>s || null\<close> for a string; \<^verbatim>\<open>n || null\<close> for a number. An absent
  field (\<^verbatim>\<open>undefined\<close>) and SQL NULL are both \<open>None\<close>.\<close>

definition json_or_null :: "json option \<Rightarrow> json option" where
  "json_or_null v = (case v of None \<Rightarrow> None | Some j \<Rightarrow> if js_truthy j then Some j else None)"

definition string_or_null :: "string option \<Rightarrow> string option" where
  "string_or_null v = (case v of None \<Rightarrow> None | Some s \<Rightarrow> if s \<noteq> [] then Some s else None)"

definition number_or_null :: "int option \<Rightarrow> int option" where
  "number_or_null v = (case v of None \<Rightarrow> None | Some n \<Rightarrow> if n \<noteq> 0 then Some n else None)"

datatype role = User | Assistant | System

text \<open>A \<^verbatim>\<open>createdAt\<close> of an AgentInfo or a Snapshot is declared a string and holds what
  \<^verbatim>\<open>toISOString\<close> returns: \<open>IsoString t\<close> is the ISO string of the wall-clock time
  \<open>t\<close>. Its column is TIMESTAMP (without time zone), which keeps the wall-clock time of
  its input and drops the zone; reading the column the driver returns a \<^verbatim>\<open>Date\<close>, made of
  the stored wall-clock time \<open>w\<close> in the zone of the process: \<open>DateObject w\<close>. Given
  back as a parameter, that \<^verbatim>\<open>Date\<close> is written as the same wall-clock time.\<close>

datatype js_time = IsoString int | DateObject int

fun timestamp_in :: "js_time \<Rightarrow> int" where
  "timestamp_in (IsoString t) = t"
| "timestamp_in (DateObject w) = w"

text \<open>A timestamp of a ToolCallRecord is declared a number. Its column is BIGINT, for
  which the driver returns the decimal string of the stored integer:
  \<open>NumericString n\<close>. As a parameter the string is read as that integer again. A
  number is falsy when it is 0, a string when it is empty, which a decimal string never
  is.\<close>

datatype js_number = Number int | NumericString int

fun bigint_in :: "js_number \<Rightarrow> int" where
  "bigint_in (Number n) = n"
| "bigint_in (NumericString n) = n"

fun js_number_truthy :: "js_number \<Rightarrow> bool" where
  "js_number_truthy (Number n) = (n \<noteq> 0)"
| "js_number_truthy (NumericString n) = True"

text \<open>\<^verbatim>\<open>x || null\<close> on save and \<^verbatim>\<open>row.x || undefined\<close> on load, for such a value.\<close>

definition js_number_or_null :: "js_number option \<Rightarrow> js_number option" where
  "js_number_or_null v =
     (case v of None \<Rightarrow> None | Some x \<Rightarrow> if js_number_truthy x then Some x else None)"

text \<open>The entity types are declared in \<^verbatim>\<open>core/types\<close>, which is not among the sources;
  the fields below are the ones \<^verbatim>\<open>postgres-store.ts\<close> reads and writes, named as there
  with a prefix per type.\<close>

record Message =
  msg_role :: role
  msg_content :: json
  msg_metadata :: "json option"

record AgentInfo =
  info_agentId :: string
  info_templateId :: string
  info_createdAt :: js_time
  info_configVersion :: string
  info_lineage :: "string list"
  info_messageCount :: int
  info_lastSfpIndex :: int
  info_lastBookmark :: "json option"
  info_breakpoint :: "string option"
  info_metadata :: json

record ToolCallRecord =
  tc_id :: string
  tc_name :: string
  tc_input :: json
  tc_state :: string
  tc_approval :: json
  tc_result :: "json option"
  tc_error :: "string option"
  tc_isError :: "bool option"
  tc_startedAt :: "js_number option"
  tc_completedAt :: "js_number option"
  tc_durationMs :: "int option"
  tc_createdAt :: js_number
  tc_updatedAt :: js_number
  tc_auditTrail :: json

record Snapshot =
  snap_id :: string
  snap_messages :: "Message list"
  snap_lastSfpIndex :: int
  snap_lastBookmark :: json
  snap_createdAt :: js_time
  snap_metadata :: "json option"

record AgentStats =
  totalMessages :: nat
  totalToolCalls :: nat
  totalSnapshots :: nat
  avgMessagesPerSession :: nat
  toolCallsByName :: "(string \<times> nat) list"
  toolCallsByState :: "(string \<times> nat) list"

section \<open>The database\<close>

text \<open>One row type per relation of \<^verbatim>\<open>createTables\<close>, a column per field.\<close>

record agents_row =
  a_agent_id :: string
  a_template_id :: string
  a_created_at :: int
  a_config_version :: string
  a_lineage :: "string list"
  a_message_count :: int
  a_last_sfp_index :: int
  a_last_bookmark :: "json option"
  a_breakpoint :: "string option"
  a_metadata :: json

record messages_row =
  m_id :: string
  m_agent_id :: string
  m_role :: role
  m_content :: json
  m_seq :: int
  m_metadata :: "json option"
  m_created_at :: int

record tool_calls_row =
  t_id :: string
  t_agent_id :: string
  t_name :: string
  t_input :: json
  t_state :: string
  t_approval :: json
  t_result :: "json option"
  t_error :: "string option"
  t_is_error :: "bool option"
  t_started_at :: "int option"
  t_completed_at :: "int option"
  t_duration_ms :: "int option"
  t_created_at :: int
  t_updated_at :: int
  t_audit_trail :: json

record snapshots_row =
  s_agent_id :: string
  s_snapshot_id :: string
  s_messages :: "Message list"
  s_last_sfp_index :: int
  s_last_bookmark :: json
  s_created_at :: int
  s_metadata :: "json option"

datatype relation_name = Agents | Messages | ToolCalls | Snapshots

text \<open>The database: which relations exist, whether the unique index
  \<^verbatim>\<open>idx_messages_agent_seq\<close> exists, and the rows of each relation in insertion order.\<close>

record database =
  relations :: "relation_name list"
  idx_messages_agent_seq :: bool
  agents :: "agents_row list"
  messages :: "messages_row list"
  tool_calls :: "tool_calls_row list"
  snapshots :: "snapshots_row list"

text \<open>The errors \<^verbatim>\<open>client.query\<close> rejects with in this model: a statement on a
  relation that does not exist, a duplicate key, a dangling foreign key, a value outside
  an INTEGER or BIGINT column, and a failure of the connection while the query is in
  flight. The store itself declares no error of its own.\<close>

datatype pg_error =
    UndefinedTable
  | UniqueViolation
  | ForeignKeyViolation
  | NumericValueOutOfRange
  | ConnectionFailure

definition int4 :: "int \<Rightarrow> bool" where
  "int4 v = (- 2147483648 \<le> v \<and> v \<le> 2147483647)"

definition opt_int4 :: "int option \<Rightarrow> bool" where
  "opt_int4 v = (case v of None \<Rightarrow> True | Some n \<Rightarrow> int4 n)"

definition has_relation :: "relation_name \<Rightarrow> database \<Rightarrow> bool" where
  "has_relation t db = (t \<in> set (relations db))"

definition fresh_database :: database where
  "fresh_database = \<lparr>relations = [], idx_messages_agent_seq = False,
     agents = [], messages = [], tool_calls = [], snapshots = []\<rparr>"

definition int8 :: "int \<Rightarrow> bool" where
  "int8 v = (- 9223372036854775808 \<le> v \<and> v \<le> 9223372036854775807)"

definition opt_int8 :: "int option \<Rightarrow> bool" where
  "opt_int8 v = (case v of None \<Rightarrow> True | Some n \<Rightarrow> int8 n)"

section \<open>SQL statements\<close>

text \<open>Each statement of the source, with the constraints \<^verbatim>\<open>createTables\<close> and
  \<^verbatim>\<open>createIndexes\<close> declare for its relation: the primary keys, the foreign keys to
  \<^verbatim>\<open>agents(agent_id)\<close> with \<^verbatim>\<open>ON DELETE CASCADE\<close>, the INTEGER and BIGINT column
  ranges, and the unique index on \<^verbatim>\<open>messages(agent_id, seq)\<close>. The NOT NULL and CHECK
  constraints cannot fail on values of the types above. A statement that fails changes
  nothing.\<close>

definition sql_delete_messages :: "string \<Rightarrow> database \<Rightarrow> pg_error + database" where
  "sql_delete_messages agentId db =
     (if \<not> has_relation Messages db then Inl UndefinedTable
      else Inr (db\<lparr>messages := filter (\<lambda>r. m_agent_id r \<noteq> agentId) (messages db)\<rparr>))"

definition sql_insert_message :: "messages_row \<Rightarrow> database \<Rightarrow> pg_error + database" where
  "sql_insert_message row db =
     (if \<not> has_relation Messages db then Inl UndefinedTable
      else if \<not> int4 (m_seq row) \<or> \<not> int8 (m_created_at row) then Inl NumericValueOutOfRange
      else if m_id row \<in> set (map m_id (messages db)) then Inl UniqueViolation
      else if idx_messages_agent_seq db \<and>
              (m_agent_id row, m_seq row) \<in> set (map (\<lambda>r. (m_agent_id r, m_seq r)) (messages db))
           then Inl UniqueViolation
      else if m_agent_id row \<notin> set (map a_agent_id (agents db)) then Inl ForeignKeyViolation
      else Inr (db\<lparr>messages := messages db @ [row]\<rparr>))"

definition sql_update_message_count :: "int \<Rightarrow> string \<Rightarrow> database \<Rightarrow> pg_error + database" where
  "sql_update_message_count n agentId db =
     (if \<not> has_relation Agents db then Inl UndefinedTable
      else if \<not> int4 n then Inl NumericValueOutOfRange
      else Inr (db\<lparr>agents :=
             map (\<lambda>r. if a_agent_id r = agentId then r\<lparr>a_message_count := n\<rparr> else r) (agents db)\<rparr>))"

definition sql_delete_tool_calls :: "string \<Rightarrow> database \<Rightarrow> pg_error + database" where
  "sql_delete_tool_calls agentId db =
     (if \<not> has_relation ToolCalls db then Inl UndefinedTable
      else Inr (db\<lparr>tool_calls := filter (\<lambda>r. t_agent_id r \<noteq> agentId) (tool_calls db)\<rparr>))"

definition sql_insert_tool_call :: "tool_calls_row \<Rightarrow> database \<Rightarrow> pg_error + database" where
  "sql_insert_tool_call row db =
     (if \<not> has_relation ToolCalls db then Inl UndefinedTable
      else if \<not> opt_int4 (t_duration_ms row) \<or> \<not> opt_int8 (t_started_at row) \<or>
              \<not> opt_int8 (t_completed_at row) \<or> \<not> int8 (t_created_at row) \<or>
              \<not> int8 (t_updated_at row)
           then Inl NumericValueOutOfRange
      else if t_id row \<in> set (map t_id (tool_calls db)) then Inl UniqueViolation
      else if t_agent_id row \<notin> set (map a_agent_id (agents db)) then Inl ForeignKeyViolation
      else Inr (db\<lparr>tool_calls := tool_calls db @ [row]\<rparr>))"

text \<open>\<^verbatim>\<open>INSERT ... ON CONFLICT (agent_id, snapshot_id) DO UPDATE SET ...\<close>: the row with
  the key, when there is one, takes the five columns of the \<^verbatim>\<open>DO UPDATE SET\<close> list from the
  proposed row (\<^verbatim>\<open>EXCLUDED\<close>).\<close>

definition snapshots_do_update :: "snapshots_row \<Rightarrow> snapshots_row \<Rightarrow> snapshots_row" where
  "snapshots_do_update excluded r =
     r\<lparr>s_messages := s_messages excluded,
       s_last_sfp_index := s_last_sfp_index excluded,
       s_last_bookmark := s_last_bookmark excluded,
       s_created_at := s_created_at excluded,
       s_metadata := s_metadata excluded\<rparr>"

definition sql_upsert_snapshot :: "snapshots_row \<Rightarrow> database \<Rightarrow> pg_error + database" where
  "sql_upsert_snapshot row db =
     (if \<not> has_relation Snapshots db then Inl UndefinedTable
      else if \<not> int4 (s_last_sfp_index row) then Inl NumericValueOutOfRange
      else if (s_agent_id row, s_snapshot_id row)
                \<in> set (map (\<lambda>r. (s_agent_id r, s_snapshot_id r)) (snapshots db))
           then Inr (db\<lparr>snapshots :=
                  map (\<lambda>r. if (s_agent_id r, s_snapshot_id r) = (s_agent_id row, s_snapshot_id row)
                           then snapshots_do_update row r else r) (snapshots db)\<rparr>)
      else if s_agent_id row \<notin> set (map a_agent_id (agents db)) then Inl ForeignKeyViolation
      else Inr (db\<lparr>snapshots := snapshots db @ [row]\<rparr>))"

text \<open>\<^verbatim>\<open>INSERT ... ON CONFLICT (agent_id) DO UPDATE SET ...\<close> on \<^verbatim>\<open>agents\<close>.\<close>

definition agents_do_update :: "agents_row \<Rightarrow> agents_row \<Rightarrow> agents_row" where
  "agents_do_update excluded r =
     r\<lparr>a_template_id := a_template_id excluded,
       a_created_at := a_created_at excluded,
       a_config_version := a_config_version excluded,
       a_lineage := a_lineage excluded,
       a_message_count := a_message_count excluded,
       a_last_sfp_index := a_last_sfp_index excluded,
       a_last_bookmark := a_last_bookmark excluded,
       a_breakpoint := a_breakpoint excluded,
       a_metadata := a_metadata excluded\<rparr>"

definition sql_upsert_agent :: "agents_row \<Rightarrow> database \<Rightarrow> pg_error + database" where
  "sql_upsert_agent row db =
     (if \<not> has_relation Agents db then Inl UndefinedTable
      else if \<not> int4 (a_message_count row) \<or> \<not> int4 (a_last_sfp_index row)
           then Inl NumericValueOutOfRange
      else if a_agent_id row \<in> set (map a_agent_id (agents db))
           then Inr (db\<lparr>agents :=
                  map (\<lambda>r. if a_agent_id r = a_agent_id row
                           then agents_do_update row r else r) (agents db)\<rparr>)
      else Inr (db\<lparr>agents := agents db @ [row]\<rparr>))"

text \<open>\<^verbatim>\<open>DELETE FROM agents WHERE agent_id = $1\<close>. Deleting a row of \<^verbatim>\<open>agents\<close>
  cascades to the rows of the three dependent relations that reference it; when no row
  is deleted nothing cascades.\<close>

definition sql_delete_agent :: "string \<Rightarrow> database \<Rightarrow> pg_error + database" where
  "sql_delete_agent agentId db =
     (if \<not> has_relation Agents db then Inl UndefinedTable
      else if agentId \<in> set (map a_agent_id (agents db))
           then Inr (db\<lparr>agents := filter (\<lambda>r. a_agent_id r \<noteq> agentId) (agents db),
                        messages := filter (\<lambda>r. m_agent_id r \<noteq> agentId) (messages db),
                        tool_calls := filter (\<lambda>r. t_agent_id r \<noteq> agentId) (tool_calls db),
                        snapshots := filter (\<lambda>r. s_agent_id r \<noteq> agentId) (snapshots db)\<rparr>)
      else Inr db)"

text \<open>Queries. \<^verbatim>\<open>ORDER BY k ASC\<close> is a stable sort on \<open>k\<close>, \<^verbatim>\<open>ORDER BY k DESC\<close> a
  stable sort on \<open>- k\<close>; SQL leaves the order of rows with equal keys open, the model
  keeps them in insertion order.\<close>

definition sql_select_messages :: "string \<Rightarrow> database \<Rightarrow> pg_error + messages_row list" where
  "sql_select_messages agentId db =
     (if \<not> has_relation Messages db then Inl UndefinedTable
      else Inr (sort_key m_seq (filter (\<lambda>r. m_agent_id r = agentId) (messages db))))"

definition sql_select_tool_calls :: "string \<Rightarrow> database \<Rightarrow> pg_error + tool_calls_row list" where
  "sql_select_tool_calls agentId db =
     (if \<not> has_relation ToolCalls db then Inl UndefinedTable
      else Inr (sort_key t_created_at (filter (\<lambda>r. t_agent_id r = agentId) (tool_calls db))))"

definition sql_select_snapshot ::
  "string \<Rightarrow> string \<Rightarrow> database \<Rightarrow> pg_error + snapshots_row list" where
  "sql_select_snapshot agentId snapshotId db =
     (if \<not> has_relation Snapshots db then Inl UndefinedTable
      else Inr (filter (\<lambda>r. s_agent_id r = agentId \<and> s_snapshot_id r = snapshotId) (snapshots db)))"

definition sql_select_snapshots :: "string \<Rightarrow> database \<Rightarrow> pg_error + snapshots_row list" where
  "sql_select_snapshots agentId db =
     (if \<not> has_relation Snapshots db then Inl UndefinedTable
      else Inr (sort_key (\<lambda>r. - s_created_at r)
                  (filter (\<lambda>r. s_agent_id r = agentId) (snapshots db))))"

definition sql_select_agent :: "string \<Rightarrow> database \<Rightarrow> pg_error + agents_row list" where
  "sql_select_agent agentId db =
     (if \<not> has_relation Agents db then Inl UndefinedTable
      else Inr (filter (\<lambda>r. a_agent_id r = agentId) (agents db)))"

text \<open>\<^verbatim>\<open>LIKE\<close> with the default escape character: in the pattern \<^verbatim>\<open>%\<close> matches any
  sequence of characters, \<^verbatim>\<open>_\<close> any one character, a backslash makes the next pattern
  character literal, and every other character matches itself.\<close>

fun like_match :: "string \<Rightarrow> string \<Rightarrow> bool" where
  "like_match [] s = (s = [])"
| "like_match (p # ps) [] = (p = CHR ''%'' \<and> like_match ps [])"
| "like_match (p # ps) (x # xs) =
     (if p = CHR ''%'' then like_match ps (x # xs) \<or> like_match (p # ps) xs
      else if p = CHR 0x5C then (case ps of [] \<Rightarrow> False | q # qs \<Rightarrow> q = x \<and> like_match qs xs)
      else if p = CHR ''_'' then like_match ps xs
      else p = x \<and> like_match ps xs)"

text \<open>\<^verbatim>\<open>SELECT agent_id FROM agents [WHERE agent_id LIKE $1] ORDER BY created_at DESC\<close>;
  the pattern is absent in the query without a \<^verbatim>\<open>WHERE\<close> clause.\<close>

definition sql_select_agent_ids :: "string option \<Rightarrow> database \<Rightarrow> pg_error + string list" where
  "sql_select_agent_ids pattern db =
     (if \<not> has_relation Agents db then Inl UndefinedTable
      else Inr (map a_agent_id (sort_key (\<lambda>r. - a_created_at r)
             (case pattern of
                None \<Rightarrow> agents db
              | Some pat \<Rightarrow> filter (\<lambda>r. like_match pat (a_agent_id r)) (agents db)))))"

text \<open>\<^verbatim>\<open>SELECT COUNT(*)\<close> and \<^verbatim>\<open>SELECT k, COUNT(*) ... GROUP BY k\<close> over the rows a
  \<^verbatim>\<open>WHERE\<close> clause selects: one group per distinct key.\<close>

definition sql_group_count :: "string list \<Rightarrow> (string \<times> nat) list" where
  "sql_group_count ks = map (\<lambda>k. (k, count_list ks k)) (remdups ks)"

definition sql_count_messages :: "string \<Rightarrow> database \<Rightarrow> pg_error + nat" where
  "sql_count_messages agentId db =
     (if \<not> has_relation Messages db then Inl UndefinedTable
      else Inr (length (filter (\<lambda>r. m_agent_id r = agentId) (messages db))))"

definition sql_count_tool_calls :: "string \<Rightarrow> database \<Rightarrow> pg_error + nat" where
  "sql_count_tool_calls agentId db =
     (if \<not> has_relation ToolCalls db then Inl UndefinedTable
      else Inr (length (filter (\<lambda>r. t_agent_id r = agentId) (tool_calls db))))"

definition sql_count_snapshots :: "string \<Rightarrow> database \<Rightarrow> pg_error + nat" where
  "sql_count_snapshots agentId db =
     (if \<not> has_relation Snapshots db then Inl UndefinedTable
      else Inr (length (filter (\<lambda>r. s_agent_id r = agentId) (snapshots db))))"

definition sql_tool_calls_by_name :: "string \<Rightarrow> database \<Rightarrow> pg_error + (string \<times> nat) list" where
  "sql_tool_calls_by_name agentId db =
     (if \<not> has_relation ToolCalls db then Inl UndefinedTable
      else Inr (sql_group_count (map t_name (filter (\<lambda>r. t_agent_id r = agentId) (tool_calls db)))))"

definition sql_tool_calls_by_state :: "string \<Rightarrow> database \<Rightarrow> pg_error + (string \<times> nat) list" where
  "sql_tool_calls_by_state agentId db =
     (if \<not> has_relation ToolCalls db then Inl UndefinedTable
      else Inr (sql_group_count (map t_state (filter (\<lambda>r. t_agent_id r = agentId) (tool_calls db)))))"

text \<open>\<^verbatim>\<open>CREATE TABLE IF NOT EXISTS\<close>: nothing to do when the relation exists; the three
  dependent relations reference \<^verbatim>\<open>agents\<close>, which must exist. The index statements of
  \<^verbatim>\<open>createIndexes\<close> need their relation; the unique index on \<^verbatim>\<open>messages\<close> is only
  built over rows that satisfy it.\<close>

definition sql_create_table :: "relation_name \<Rightarrow> database \<Rightarrow> pg_error + database" where
  "sql_create_table t db =
     (if has_relation t db then Inr db
      else if t \<noteq> Agents \<and> \<not> has_relation Agents db then Inl UndefinedTable
      else Inr (db\<lparr>relations := relations db @ [t]\<rparr>))"

definition sql_create_indexes :: "relation_name \<Rightarrow> database \<Rightarrow> pg_error + database" where
  "sql_create_indexes t db =
     (if \<not> has_relation t db then Inl UndefinedTable
      else if t = Messages \<and> \<not> idx_messages_agent_seq db
           then (if distinct (map (\<lambda>r. (m_agent_id r, m_seq r)) (messages db))
                 then Inr (db\<lparr>idx_messages_agent_seq := True\<rparr>)
                 else Inl UniqueViolation)
      else Inr db)"

section \<open>Connections and transactions\<close>

text \<open>A pooled client sees the committed database (\<open>server\<close>), which is what every
  other connection sees too, and between \<^verbatim>\<open>BEGIN\<close> and \<^verbatim>\<open>COMMIT\<close>/\<^verbatim>\<open>ROLLBACK\<close> a working
  copy of its own (\<open>txn\<close>). Outside a transaction a statement commits by itself. A
  statement that fails inside a transaction changes nothing, and the transaction stays
  open until \<^verbatim>\<open>ROLLBACK\<close> or \<^verbatim>\<open>COMMIT\<close> ends it; after a failure the source sends
  nothing but \<^verbatim>\<open>ROLLBACK\<close>. \<^verbatim>\<open>BEGIN\<close> inside a transaction, and \<^verbatim>\<open>COMMIT\<close> or
  \<^verbatim>\<open>ROLLBACK\<close> outside one, are accepted with a warning and change nothing.
  \<^verbatim>\<open>client.query\<close> returns the error it rejected with, if any, and the client.\<close>

record client =
  server :: database
  txn :: "database option"

definition connect :: "database \<Rightarrow> client" where
  "connect db = \<lparr>server = db, txn = None\<rparr>"

definition pg_query :: "(database \<Rightarrow> pg_error + database) \<Rightarrow> client \<Rightarrow> pg_error option \<times> client" where
  "pg_query stmt c =
     (case txn c of
        None \<Rightarrow> (case stmt (server c) of
                   Inl e \<Rightarrow> (Some e, c)
                 | Inr d \<Rightarrow> (None, c\<lparr>server := d\<rparr>))
      | Some w \<Rightarrow> (case stmt w of
                   Inl e \<Rightarrow> (Some e, c)
                 | Inr d \<Rightarrow> (None, c\<lparr>txn := Some d\<rparr>)))"

definition pg_BEGIN :: "client \<Rightarrow> pg_error option \<times> client" where
  "pg_BEGIN c = (None, case txn c of None \<Rightarrow> c\<lparr>txn := Some (server c)\<rparr> | Some w \<Rightarrow> c)"

definition pg_COMMIT :: "client \<Rightarrow> pg_error option \<times> client" where
  "pg_COMMIT c = (None, case txn c of None \<Rightarrow> c | Some w \<Rightarrow> \<lparr>server = w, txn = None\<rparr>)"

definition pg_ROLLBACK :: "client \<Rightarrow> pg_error option \<times> client" where
  "pg_ROLLBACK c = (None, c\<lparr>txn := None\<rparr>)"

text \<open>\<^verbatim>\<open>await client.query(...)\<close> where the source handles its rejection, that is in
  \<^verbatim>\<open>saveMessages\<close> and \<^verbatim>\<open>saveToolCallRecords\<close>: each call site is named, and a plan
  of failures of the connection says which call sites reject, and with which error,
  before the query has had any effect. So \<^verbatim>\<open>BEGIN\<close>, \<^verbatim>\<open>COMMIT\<close> and \<^verbatim>\<open>ROLLBACK\<close>
  can reject like every other query. The methods that issue one statement and catch
  nothing are modelled on a working connection.\<close>

datatype call_site = At_BEGIN | At_DELETE | At_INSERT nat | At_UPDATE | At_COMMIT | At_ROLLBACK

definition client_query ::
  "pg_error option \<Rightarrow> (client \<Rightarrow> pg_error option \<times> client) \<Rightarrow> client
     \<Rightarrow> pg_error option \<times> client" where
  "client_query failure query c = (case failure of Some e \<Rightarrow> (Some e, c) | None \<Rightarrow> query c)"

definition no_failures :: "call_site \<Rightarrow> pg_error option" where
  "no_failures site = None"

text \<open>A method that issues one statement on a fresh client and releases it.\<close>

definition run_statement ::
  "(database \<Rightarrow> pg_error + database) \<Rightarrow> database \<Rightarrow> pg_error option \<times> database" where
  "run_statement stmt db = (case pg_query stmt (connect db) of (r, c) \<Rightarrow> (r, server c))"

fun run_queries ::
  "(database \<Rightarrow> pg_error + database) list \<Rightarrow> client \<Rightarrow> pg_error option \<times> client" where
  "run_queries [] c = (None, c)"
| "run_queries (q # qs) c =
     (case pg_query q c of
        (Some e, c') \<Rightarrow> (Some e, c')
      | (None, c') \<Rightarrow> run_queries qs c')"

section \<open>The methods of PostgresStore\<close>

text \<open>A write returns the error it threw (\<open>None\<close> when it resolved) and the database
  it leaves; the two transactional writes return the client as they release it to the
  pool, whose \<open>server\<close> is the database they leave. A read returns an error or its
  result. The clock and the random number generator are not functions of the state:
  \<^verbatim>\<open>saveMessages\<close> takes as the parameter \<open>readings\<close> what \<^verbatim>\<open>Date.now()\<close> and
  \<^verbatim>\<open>Math.random().toString(36)\<close> evaluate to inside the call of \<^verbatim>\<open>generateMessageId\<close>
  in iteration \<open>index\<close> of its loop, and as the parameter \<open>now\<close> what the
  \<^verbatim>\<open>Date.now()\<close> of that iteration's parameter list returns. No method reads
  \<^verbatim>\<open>initPromise\<close> or \<^verbatim>\<open>initError\<close>; a method called before \<^verbatim>\<open>initialize\<close> has finished
  runs on the database as \<^verbatim>\<open>initialize\<close> has left it so far.\<close>

text \<open>The decimal numeral of an integer, as a template literal renders a number.\<close>

fun digits :: "nat \<Rightarrow> string" where
  "digits n =
     (if n < 10 then [''0123456789'' ! n]
      else digits (n div 10) @ [''0123456789'' ! (n mod 10)])"

declare digits.simps [simp del]

definition decimal :: "int \<Rightarrow> string" where
  "decimal i = (if i < 0 then ''-'' @ digits (nat (- i)) else digits (nat i))"

text \<open>\<^verbatim>\<open>`msg_${Date.now()}_${Math.random().toString(36).substr(2, 9)}`\<close>\<close>

definition generateMessageId :: "int \<times> string \<Rightarrow> string" where
  "generateMessageId reading =
     (case reading of (date_now, random36) \<Rightarrow>
        ''msg_'' @ decimal date_now @ ''_'' @ take 9 (drop 2 random36))"

definition message_row ::
  "string \<Rightarrow> (nat \<Rightarrow> int \<times> string) \<Rightarrow> (nat \<Rightarrow> int) \<Rightarrow> nat \<Rightarrow> Message \<Rightarrow> messages_row"
  where
  "message_row agentId readings now index msg =
     \<lparr>m_id = generateMessageId (readings index),
      m_agent_id = agentId,
      m_role = msg_role msg,
      m_content = msg_content msg,
      m_seq = int index,
      m_metadata = json_or_null (msg_metadata msg),
      m_created_at = now index\<rparr>"

text \<open>The loop \<^verbatim>\<open>for (let index = 0; index < messages.length; index++)\<close>, from
  \<open>index\<close> on, over the messages still to insert.\<close>

fun insert_messages ::
  "(call_site \<Rightarrow> pg_error option) \<Rightarrow> string \<Rightarrow> (nat \<Rightarrow> int \<times> string) \<Rightarrow> (nat \<Rightarrow> int)
     \<Rightarrow> nat \<Rightarrow> Message list \<Rightarrow> client \<Rightarrow> pg_error option \<times> client" where
  "insert_messages failures agentId readings now index [] c = (None, c)"
| "insert_messages failures agentId readings now index (msg # rest) c =
     (case client_query (failures (At_INSERT index))
             (pg_query (sql_insert_message (message_row agentId readings now index msg))) c
      of
        (Some e, c') \<Rightarrow> (Some e, c')
      | (None, c') \<Rightarrow>
          insert_messages failures agentId readings now (Suc index) rest c')"

text \<open>The \<^verbatim>\<open>try\<close> block of \<^verbatim>\<open>saveMessages\<close>: BEGIN, DELETE, the INSERT loop, UPDATE,
  COMMIT, stopping at the first statement that throws.\<close>

definition saveMessages_try ::
  "(call_site \<Rightarrow> pg_error option) \<Rightarrow> string \<Rightarrow> Message list \<Rightarrow> (nat \<Rightarrow> int \<times> string)
     \<Rightarrow> (nat \<Rightarrow> int) \<Rightarrow> client \<Rightarrow> pg_error option \<times> client" where
  "saveMessages_try failures agentId msgs readings now c =
     (case client_query (failures At_BEGIN) pg_BEGIN c of
        (Some e, c0) \<Rightarrow> (Some e, c0)
      | (None, c0) \<Rightarrow>
     (case client_query (failures At_DELETE) (pg_query (sql_delete_messages agentId)) c0 of
        (Some e, c1) \<Rightarrow> (Some e, c1)
      | (None, c1) \<Rightarrow>
     (case insert_messages failures agentId readings now 0 msgs c1 of
        (Some e, c2) \<Rightarrow> (Some e, c2)
      | (None, c2) \<Rightarrow>
     (case client_query (failures At_UPDATE)
             (pg_query (sql_update_message_count (int (length msgs)) agentId)) c2 of
        (Some e, c3) \<Rightarrow> (Some e, c3)
      | (None, c3) \<Rightarrow> client_query (failures At_COMMIT) pg_COMMIT c3))))"

text \<open>\<^verbatim>\<open>catch (err) { await client.query('ROLLBACK'); throw err; }\<close>: when the
  \<^verbatim>\<open>ROLLBACK\<close> rejects, its error is thrown and \<^verbatim>\<open>throw err\<close> is not reached. Then
  \<^verbatim>\<open>finally { client.release(); }\<close>: the client goes back to the pool as it is.\<close>

definition saveMessages ::
  "database \<Rightarrow> string \<Rightarrow> Message list \<Rightarrow> (nat \<Rightarrow> int \<times> string) \<Rightarrow> (nat \<Rightarrow> int)
     \<Rightarrow> (call_site \<Rightarrow> pg_error option) \<Rightarrow> pg_error option \<times> client" where
  "saveMessages db agentId msgs readings now failures =
     (case saveMessages_try failures agentId msgs readings now (connect db) of
        (Some err, c) \<Rightarrow>
          (case client_query (failures At_ROLLBACK) pg_ROLLBACK c of
             (Some rollback_err, c') \<Rightarrow> (Some rollback_err, c')
           | (None, c') \<Rightarrow> (Some err, c'))
      | (None, c) \<Rightarrow> (None, c))"

definition message_of_row :: "messages_row \<Rightarrow> Message" where
  "message_of_row row =
     \<lparr>msg_role = m_role row,
      msg_content = m_content row,
      msg_metadata = json_or_null (m_metadata row)\<rparr>"

definition loadMessages :: "database \<Rightarrow> string \<Rightarrow> pg_error + Message list" where
  "loadMessages db agentId =
     (case sql_select_messages agentId db of
        Inl e \<Rightarrow> Inl e
      | Inr rows \<Rightarrow> Inr (map message_of_row rows))"

definition tool_call_row :: "string \<Rightarrow> ToolCallRecord \<Rightarrow> tool_calls_row" where
  "tool_call_row agentId rec =
     \<lparr>t_id = tc_id rec,
      t_agent_id = agentId,
      t_name = tc_name rec,
      t_input = tc_input rec,
      t_state = tc_state rec,
      t_approval = tc_approval rec,
      t_result = json_or_null (tc_result rec),
      t_error = string_or_null (tc_error rec),
      t_is_error = tc_isError rec,
      t_started_at = map_option bigint_in (js_number_or_null (tc_startedAt rec)),
      t_completed_at = map_option bigint_in (js_number_or_null (tc_completedAt rec)),
      t_duration_ms = number_or_null (tc_durationMs rec),
      t_created_at = bigint_in (tc_createdAt rec),
      t_updated_at = bigint_in (tc_updatedAt rec),
      t_audit_trail = tc_auditTrail rec\<rparr>"

text \<open>The loop of \<^verbatim>\<open>saveToolCallRecords\<close> is \<^verbatim>\<open>for (const record of records)\<close>; the
  position \<open>index\<close> only names the call site of the INSERT.\<close>

fun insert_tool_calls ::
  "(call_site \<Rightarrow> pg_error option) \<Rightarrow> string \<Rightarrow> nat \<Rightarrow> ToolCallRecord list \<Rightarrow> client
     \<Rightarrow> pg_error option \<times> client" where
  "insert_tool_calls failures agentId index [] c = (None, c)"
| "insert_tool_calls failures agentId index (rec # rest) c =
     (case client_query (failures (At_INSERT index))
             (pg_query (sql_insert_tool_call (tool_call_row agentId rec))) c
      of
        (Some e, c') \<Rightarrow> (Some e, c')
      | (None, c') \<Rightarrow> insert_tool_calls failures agentId (Suc index) rest c')"

definition saveToolCallRecords_try ::
  "(call_site \<Rightarrow> pg_error option) \<Rightarrow> string \<Rightarrow> ToolCallRecord list \<Rightarrow> client
     \<Rightarrow> pg_error option \<times> client" where
  "saveToolCallRecords_try failures agentId records c =
     (case client_query (failures At_BEGIN) pg_BEGIN c of
        (Some e, c0) \<Rightarrow> (Some e, c0)
      | (None, c0) \<Rightarrow>
     (case client_query (failures At_DELETE) (pg_query (sql_delete_tool_calls agentId)) c0 of
        (Some e, c1) \<Rightarrow> (Some e, c1)
      | (None, c1) \<Rightarrow>
     (case insert_tool_calls failures agentId 0 records c1 of
        (Some e, c2) \<Rightarrow> (Some e, c2)
      | (None, c2) \<Rightarrow> client_query (failures At_COMMIT) pg_COMMIT c2)))"

definition saveToolCallRecords ::
  "database \<Rightarrow> string \<Rightarrow> ToolCallRecord list \<Rightarrow> (call_site \<Rightarrow> pg_error option)
     \<Rightarrow> pg_error option \<times> client" where
  "saveToolCallRecords db agentId records failures =
     (case saveToolCallRecords_try failures agentId records (connect db) of
        (Some err, c) \<Rightarrow>
          (case client_query (failures At_ROLLBACK) pg_ROLLBACK c of
             (Some rollback_err, c') \<Rightarrow> (Some rollback_err, c')
           | (None, c') \<Rightarrow> (Some err, c'))
      | (None, c) \<Rightarrow> (None, c))"

definition tool_call_of_row :: "tool_calls_row \<Rightarrow> ToolCallRecord" where
  "tool_call_of_row row =
     \<lparr>tc_id = t_id row,
      tc_name = t_name row,
      tc_input = t_input row,
      tc_state = t_state row,
      tc_approval = t_approval row,
      tc_result = json_or_null (t_result row),
      tc_error = string_or_null (t_error row),
      tc_isError = t_is_error row,
      tc_startedAt = js_number_or_null (map_option NumericString (t_started_at row)),
      tc_completedAt = js_number_or_null (map_option NumericString (t_completed_at row)),
      tc_durationMs = number_or_null (t_duration_ms row),
      tc_createdAt = NumericString (t_created_at row),
      tc_updatedAt = NumericString (t_updated_at row),
      tc_auditTrail = t_audit_trail row\<rparr>"

definition loadToolCallRecords :: "database \<Rightarrow> string \<Rightarrow> pg_error + ToolCallRecord list" where
  "loadToolCallRecords db agentId =
     (case sql_select_tool_calls agentId db of
        Inl e \<Rightarrow> Inl e
      | Inr rows \<Rightarrow> Inr (map tool_call_of_row rows))"

definition snapshot_row :: "string \<Rightarrow> Snapshot \<Rightarrow> snapshots_row" where
  "snapshot_row agentId snapshot =
     \<lparr>s_agent_id = agentId,
      s_snapshot_id = snap_id snapshot,
      s_messages = snap_messages snapshot,
      s_last_sfp_index = snap_lastSfpIndex snapshot,
      s_last_bookmark = snap_lastBookmark snapshot,
      s_created_at = timestamp_in (snap_createdAt snapshot),
      s_metadata = json_or_null (snap_metadata snapshot)\<rparr>"

definition saveSnapshot :: "database \<Rightarrow> string \<Rightarrow> Snapshot \<Rightarrow> pg_error option \<times> database" where
  "saveSnapshot db agentId snapshot =
     run_statement (sql_upsert_snapshot (snapshot_row agentId snapshot)) db"

definition snapshot_of_row :: "snapshots_row \<Rightarrow> Snapshot" where
  "snapshot_of_row row =
     \<lparr>snap_id = s_snapshot_id row,
      snap_messages = s_messages row,
      snap_lastSfpIndex = s_last_sfp_index row,
      snap_lastBookmark = s_last_bookmark row,
      snap_createdAt = DateObject (s_created_at row),
      snap_metadata = json_or_null (s_metadata row)\<rparr>"

definition loadSnapshot :: "database \<Rightarrow> string \<Rightarrow> string \<Rightarrow> pg_error + Snapshot option" where
  "loadSnapshot db agentId snapshotId =
     (case sql_select_snapshot agentId snapshotId db of
        Inl e \<Rightarrow> Inl e
      | Inr [] \<Rightarrow> Inr None
      | Inr (row # rest) \<Rightarrow> Inr (Some (snapshot_of_row row)))"

definition listSnapshots :: "database \<Rightarrow> string \<Rightarrow> pg_error + Snapshot list" where
  "listSnapshots db agentId =
     (case sql_select_snapshots agentId db of
        Inl e \<Rightarrow> Inl e
      | Inr rows \<Rightarrow> Inr (map snapshot_of_row rows))"

text \<open>\<^verbatim>\<open>saveInfo\<close> takes the key of the row from \<^verbatim>\<open>info.agentId\<close>; its parameter
  \<^verbatim>\<open>agentId\<close> is not used.\<close>

definition agent_row :: "AgentInfo \<Rightarrow> agents_row" where
  "agent_row info =
     \<lparr>a_agent_id = info_agentId info,
      a_template_id = info_templateId info,
      a_created_at = timestamp_in (info_createdAt info),
      a_config_version = info_configVersion info,
      a_lineage = info_lineage info,
      a_message_count = info_messageCount info,
      a_last_sfp_index = info_lastSfpIndex info,
      a_last_bookmark = json_or_null (info_lastBookmark info),
      a_breakpoint = string_or_null (info_breakpoint info),
      a_metadata = info_metadata info\<rparr>"

definition saveInfo :: "database \<Rightarrow> string \<Rightarrow> AgentInfo \<Rightarrow> pg_error option \<times> database" where
  "saveInfo db agentId info = run_statement (sql_upsert_agent (agent_row info)) db"

definition info_of_row :: "agents_row \<Rightarrow> AgentInfo" where
  "info_of_row row =
     \<lparr>info_agentId = a_agent_id row,
      info_templateId = a_template_id row,
      info_createdAt = DateObject (a_created_at row),
      info_configVersion = a_config_version row,
      info_lineage = a_lineage row,
      info_messageCount = a_message_count row,
      info_lastSfpIndex = a_last_sfp_index row,
      info_lastBookmark = json_or_null (a_last_bookmark row),
      info_breakpoint = string_or_null (a_breakpoint row),
      info_metadata = a_metadata row\<rparr>"

definition loadInfo :: "database \<Rightarrow> string \<Rightarrow> pg_error + AgentInfo option" where
  "loadInfo db agentId =
     (case sql_select_agent agentId db of
        Inl e \<Rightarrow> Inl e
      | Inr [] \<Rightarrow> Inr None
      | Inr (row # rest) \<Rightarrow> Inr (Some (info_of_row row)))"

definition exists_agent :: "database \<Rightarrow> string \<Rightarrow> pg_error + bool" where
  "exists_agent db agentId =
     (case sql_select_agent agentId db of
        Inl e \<Rightarrow> Inl e
      | Inr rows \<Rightarrow> Inr (length rows > 0))"

text \<open>\<^verbatim>\<open>delete\<close> then removes the agent's files through \<^verbatim>\<open>JSONStore.delete\<close>, which is
  not among the sources and touches no relation; the model is the database part.\<close>

definition delete_agent :: "database \<Rightarrow> string \<Rightarrow> pg_error option \<times> database" where
  "delete_agent db agentId = run_statement (sql_delete_agent agentId) db"

text \<open>\<^verbatim>\<open>list(prefix?)\<close>: \<^verbatim>\<open>if (prefix)\<close> holds for a non-empty string, and the pattern
  is the prefix as given followed by \<^verbatim>\<open>%\<close>.\<close>

definition list_agents :: "database \<Rightarrow> string option \<Rightarrow> pg_error + string list" where
  "list_agents db pfx =
     (case pfx of
        None \<Rightarrow> sql_select_agent_ids None db
      | Some p \<Rightarrow> if p \<noteq> [] then sql_select_agent_ids (Some (p @ ''%'')) db
                  else sql_select_agent_ids None db)"

text \<open>\<^verbatim>\<open>rows.reduce((acc, row) => { acc[row.name] = parseInt(row.count); return acc; }, {})\<close>:
  the accumulator is an object literal, kept as the association list of its own
  properties, a key staying where it was first set. \<^verbatim>\<open>acc[k] = v\<close> with a number
  \<open>v\<close> sets the own property \<open>k\<close>, except for the key \<^verbatim>\<open>__proto__\<close>: that
  assignment calls the setter inherited from \<^verbatim>\<open>Object.prototype\<close>, which ignores a value
  that is neither an object nor null, and the object is left without the property.\<close>

fun own_set :: "string \<Rightarrow> 'v \<Rightarrow> (string \<times> 'v) list \<Rightarrow> (string \<times> 'v) list" where
  "own_set k v [] = [(k, v)]"
| "own_set k v ((k', v') # kvs) =
     (if k = k' then (k, v) # kvs else (k', v') # own_set k v kvs)"

definition obj_set :: "string \<Rightarrow> 'v \<Rightarrow> (string \<times> 'v) list \<Rightarrow> (string \<times> 'v) list" where
  "obj_set k v kvs = (if k = ''__proto__'' then kvs else own_set k v kvs)"

definition reduce_counts :: "(string \<times> nat) list \<Rightarrow> (string \<times> nat) list" where
  "reduce_counts rows = foldl (\<lambda>acc row. obj_set (fst row) (snd row) acc) [] rows"

definition aggregateStats :: "database \<Rightarrow> string \<Rightarrow> pg_error + AgentStats" where
  "aggregateStats db agentId =
     (case sql_count_messages agentId db of
        Inl e \<Rightarrow> Inl e
      | Inr messageStats \<Rightarrow>
     (case sql_count_tool_calls agentId db of
        Inl e \<Rightarrow> Inl e
      | Inr toolCallStats \<Rightarrow>
     (case sql_count_snapshots agentId db of
        Inl e \<Rightarrow> Inl e
      | Inr snapshotStats \<Rightarrow>
     (case sql_tool_calls_by_name agentId db of
        Inl e \<Rightarrow> Inl e
      | Inr byName \<Rightarrow>
     (case sql_tool_calls_by_state agentId db of
        Inl e \<Rightarrow> Inl e
      | Inr byState \<Rightarrow>
          Inr \<lparr>totalMessages = messageStats,
               totalToolCalls = toolCallStats,
               totalSnapshots = snapshotStats,
               avgMessagesPerSession = messageStats,
               toolCallsByName = reduce_counts byName,
               toolCallsByState = reduce_counts byState\<rparr>)))))"

text \<open>\<^verbatim>\<open>initialize\<close>: \<^verbatim>\<open>createTables\<close> issues four CREATE TABLE statements and
  \<^verbatim>\<open>createIndexes\<close> four batches of CREATE INDEX statements, each awaited in turn on one
  client. The constructor starts \<^verbatim>\<open>initialize\<close> and returns without waiting for it.\<close>

definition createTables_statements :: "(database \<Rightarrow> pg_error + database) list" where
  "createTables_statements = map sql_create_table [Agents, Messages, ToolCalls, Snapshots]"

definition createIndexes_statements :: "(database \<Rightarrow> pg_error + database) list" where
  "createIndexes_statements = map sql_create_indexes [Agents, Messages, ToolCalls, Snapshots]"

definition createTables :: "database \<Rightarrow> pg_error option \<times> database" where
  "createTables db =
     (case run_queries createTables_statements (connect db) of (r, c) \<Rightarrow> (r, server c))"

definition createIndexes :: "database \<Rightarrow> pg_error option \<times> database" where
  "createIndexes db =
     (case run_queries createIndexes_statements (connect db) of (r, c) \<Rightarrow> (r, server c))"

definition initialize :: "database \<Rightarrow> pg_error option \<times> database" where
  "initialize db =
     (case createTables db of
        (Some e, db') \<Rightarrow> (Some e, db')
      | (None, db') \<Rightarrow> createIndexes db')"

text \<open>What a caller sees of \<^verbatim>\<open>initialize\<close> while it runs: the database after its first
  \<open>k\<close> statements.\<close>

definition initialize_upto :: "nat \<Rightarrow> database \<Rightarrow> pg_error option \<times> database" where
  "initialize_upto k db =
     (case run_queries (take k (createTables_statements @ createIndexes_statements)) (connect db)
      of (r, c) \<Rightarrow> (r, server c))"

definition initialized :: "database \<Rightarrow> bool" where
  "initialized db =
     (has_relation Agents db \<and> has_relation Messages db \<and> has_relation ToolCalls db \<and>
      has_relation Snapshots db \<and> idx_messages_agent_seq db)"

section \<open>Auxiliary functions for the statements and proofs\<close>

text \<open>What an upsert leaves of a relation: the rows with the key of the proposed row
  replaced by it, or the proposed row appended when there is none.\<close>

definition upsert_list :: "('r \<Rightarrow> 'k) \<Rightarrow> 'r \<Rightarrow> 'r list \<Rightarrow> 'r list" where
  "upsert_list key e xs =
     (if key e \<in> set (map key xs) then map (\<lambda>r. if key r = key e then e else r) xs
      else xs @ [e])"

text \<open>The digit a character of a decimal numeral stands for.\<close>

definition digit_value :: "char \<Rightarrow> nat" where
  "digit_value c = of_char c - 48"

text \<open>The rows the loop of \<^verbatim>\<open>saveMessages\<close> inserts for a message list, from
  \<open>index\<close> on, and the database a successful \<^verbatim>\<open>saveMessages\<close> commits.\<close>

definition stored_rows ::
  "string \<Rightarrow> (nat \<Rightarrow> int \<times> string) \<Rightarrow> (nat \<Rightarrow> int) \<Rightarrow> nat \<Rightarrow> Message list \<Rightarrow> messages_row list" where
  "stored_rows agentId readings now index msgs =
     map (\<lambda>(i, msg). message_row agentId readings now i msg) (enumerate index msgs)"

definition replaced ::
  "database \<Rightarrow> string \<Rightarrow> Message list \<Rightarrow> (nat \<Rightarrow> int \<times> string) \<Rightarrow> (nat \<Rightarrow> int) \<Rightarrow> database" where
  "replaced db agentId msgs readings now =
     db\<lparr>messages := filter (\<lambda>r. m_agent_id r \<noteq> agentId) (messages db)
                        @ stored_rows agentId readings now 0 msgs,
        agents := map (\<lambda>r. if a_agent_id r = agentId
                            then r\<lparr>a_message_count := int (length msgs)\<rparr> else r) (agents db)\<rparr>"

section \<open>Well-typed values\<close>

text \<open>Modelled from the spec: the declarations of Message and AgentInfo
  (\<^verbatim>\<open>core/types\<close>) are missing. The spec gives a message an optional metadata document
  and an AgentInfo an optional \<^verbatim>\<open>lastBookmark\<close> of the form \<^verbatim>\<open>{seq, timestamp}\<close> and an
  optional \<^verbatim>\<open>breakpoint\<close> state tag: a document is an object, a tag a non-empty
  string.\<close>

fun is_object :: "json \<Rightarrow> bool" where
  "is_object (JObj kvs) = True"
| "is_object j = False"

definition well_typed_message :: "Message \<Rightarrow> bool" where
  "well_typed_message msg = (case msg_metadata msg of None \<Rightarrow> True | Some j \<Rightarrow> is_object j)"


section \<open>Constraints of the schema\<close>

text \<open>What the foreign keys, the primary key of \<^verbatim>\<open>messages\<close> and the unique index on
  \<^verbatim>\<open>messages(agent_id, seq)\<close> keep true of the rows, and the databases the store reaches
  from a fresh one by \<^verbatim>\<open>initialize\<close> followed by any sequence of its writes.\<close>

definition foreign_keys_hold :: "database \<Rightarrow> bool" where
  "foreign_keys_hold db =
     (list_all (\<lambda>r. m_agent_id r \<in> set (map a_agent_id (agents db))) (messages db) \<and>
      list_all (\<lambda>r. t_agent_id r \<in> set (map a_agent_id (agents db))) (tool_calls db) \<and>
      list_all (\<lambda>r. s_agent_id r \<in> set (map a_agent_id (agents db))) (snapshots db))"



inductive reachable :: "database \<Rightarrow> bool" where
  initialize: "reachable (snd (initialize fresh_database))"
| saveInfo: "reachable db \<Longrightarrow> reachable (snd (saveInfo db agentId info))"
| saveMessages:
    "reachable db \<Longrightarrow>
       reachable (server (snd (saveMessages db agentId msgs readings now failures)))"
| saveToolCallRecords:
    "reachable db \<Longrightarrow>
       reachable (server (snd (saveToolCallRecords db agentId records failures)))"
| saveSnapshot: "reachable db \<Longrightarrow> reachable (snd (saveSnapshot db agentId snapshot))"
| delete_agent: "reachable db \<Longrightarrow> reachable (snd (delete_agent db agentId))"

section \<open>Sample data\<close>

text \<open>An initialised database holding one agent, and values to save in it.\<close>

definition sample_info :: AgentInfo where
  "sample_info =
     \<lparr>info_agentId = ''agt:1'', info_templateId = ''test-template'', info_createdAt = IsoString 1000,
      info_configVersion = ''v2.7.0'', info_lineage = [''parent1'', ''parent2''],
      info_messageCount = 0, info_lastSfpIndex = - 1,
      info_lastBookmark = Some (JObj [(''seq'', JNum 1), (''timestamp'', JNum 900)]),
      info_breakpoint = Some ''PAUSED'',
      info_metadata = JObj [(''custom'', JObj [(''nested'', JObj [(''value'', JNum 123)])])]\<rparr>"

definition sample_database :: database where
  "sample_database =
     \<lparr>relations = [Agents, Messages, ToolCalls, Snapshots], idx_messages_agent_seq = True,
      agents = [agent_row sample_info], messages = [], tool_calls = [], snapshots = []\<rparr>"

definition sample_messages :: "Message list" where
  "sample_messages =
     [\<lparr>msg_role = User, msg_content = JArr [JObj [(''type'', JStr ''text''), (''text'', JStr ''Hello'')]],
       msg_metadata = None\<rparr>,
      \<lparr>msg_role = Assistant, msg_content = JArr [JObj [(''type'', JStr ''text''), (''text'', JStr ''Hi'')]],
       msg_metadata = Some (JObj [(''transport'', JStr ''text'')])\<rparr>,
      \<lparr>msg_role = User, msg_content = JArr [JObj [(''type'', JStr ''text''), (''text'', JStr ''Bye'')]],
       msg_metadata = None\<rparr>]"

definition sample_readings :: "nat \<Rightarrow> int \<times> string" where
  "sample_readings index = (1700000000000 + int index, ''0.k3j5x9q2a7c'')"

definition sample_now :: "nat \<Rightarrow> int" where
  "sample_now index = 1700000000000 + int index"

definition sample_snapshot :: Snapshot where
  "sample_snapshot =
     \<lparr>snap_id = ''snap:1'', snap_messages = sample_messages, snap_lastSfpIndex = 0,
      snap_lastBookmark = JObj [(''seq'', JNum 1), (''timestamp'', JNum 900)],
      snap_createdAt = IsoString 2000, snap_metadata = None\<rparr>"

definition sample_record :: ToolCallRecord where
  "sample_record =
     \<lparr>tc_id = ''call_1'', tc_name = ''fs_read'',
      tc_input = JObj [(''path'', JStr ''/test.txt'')], tc_state = ''COMPLETED'',
      tc_approval = JObj [(''required'', JBool False)],
      tc_result = Some (JObj [(''content'', JStr ''file content'')]), tc_error = None,
      tc_isError = Some False, tc_startedAt = Some (Number 1700000000000),
      tc_completedAt = Some (Number 1700000000000), tc_durationMs = Some 0,
      tc_createdAt = Number 1700000000000, tc_updatedAt = Number 1700000000000,
      tc_auditTrail = JArr [JObj [(''state'', JStr ''PENDING''), (''timestamp'', JNum 1700000000000)],
                            JObj [(''state'', JStr ''COMPLETED''), (''timestamp'', JNum 1700000000000)]]\<rparr>"

definition sample_record2 :: ToolCallRecord where
  "sample_record2 =
     \<lparr>tc_id = ''call_2'', tc_name = ''fs_write'',
      tc_input = JObj [(''path'', JStr ''/out.txt'')], tc_state = ''FAILED'',
      tc_approval = JObj [(''required'', JBool True)],
      tc_result = None, tc_error = Some ''denied'',
      tc_isError = Some True, tc_startedAt = Some (Number 1700000000100),
      tc_completedAt = Some (Number 1700000000112), tc_durationMs = Some 12,
      tc_createdAt = Number 1700000000050, tc_updatedAt = Number 1700000000112,
      tc_auditTrail = JArr [JObj [(''state'', JStr ''PENDING''), (''timestamp'', JNum 1700000000050)],
                            JObj [(''state'', JStr ''FAILED''), (''timestamp'', JNum 1700000000112)]]\<rparr>"

definition sample_populated :: database where
  "sample_populated =
     snd (saveSnapshot
       (server (snd (saveToolCallRecords
         (server (snd (saveMessages sample_database ''agt:1'' sample_messages
            sample_readings sample_now no_failures)))
         ''agt:1'' [sample_record, sample_record2] no_failures)))
       ''agt:1'' sample_snapshot)"

definition sample_agents :: database where
  "sample_agents =
     snd (saveInfo (snd (saveInfo sample_database ''agt:pg_1''
           (sample_info\<lparr>info_agentId := ''agt:pg_1'', info_createdAt := IsoString 2000\<rparr>)))
        ''agt:pgX1''
        (sample_info\<lparr>info_agentId := ''agt:pgX1'', info_createdAt := IsoString 3000\<rparr>))"

text \<open>Readings under which \<^verbatim>\<open>generateMessageId\<close> returns the same id in every
  iteration (the same millisecond and the same random digits), so that the second INSERT
  violates the primary key, and a connection that is lost when the \<^verbatim>\<open>ROLLBACK\<close> is
  sent.\<close>

definition sample_same_readings :: "nat \<Rightarrow> int \<times> string" where
  "sample_same_readings index = (1700000000000, ''0.k3j5x9q2a7c'')"

definition sample_lost_at_rollback :: "call_site \<Rightarrow> pg_error option" where
  "sample_lost_at_rollback site = (if site = At_ROLLBACK then Some ConnectionFailure else None)"

text \<open>The database while \<^verbatim>\<open>initialize\<close> runs, when \<^verbatim>\<open>createTables\<close> has finished and
  \<^verbatim>\<open>createIndexes\<close> has not started, and that database with the sample agent saved.\<close>

definition sample_uninitialized :: database where
  "sample_uninitialized = fresh_database\<lparr>relations := [Agents, Messages, ToolCalls, Snapshots]\<rparr>"

definition sample_early_agent :: database where
  "sample_early_agent = snd (saveInfo sample_uninitialized ''agt:1'' sample_info)"

text \<open>A record of a tool named \<^verbatim>\<open>__proto__\<close>, and the sample database after the
  agent's tool calls \<^verbatim>\<open>fs_read\<close> and \<^verbatim>\<open>__proto__\<close> have been saved.\<close>

definition sample_record3 :: ToolCallRecord where
  "sample_record3 = sample_record2\<lparr>tc_id := ''call_3'', tc_name := ''__proto__''\<rparr>"

definition sample_tools :: database where
  "sample_tools =
     server (snd (saveToolCallRecords sample_database ''agt:1'' [sample_record, sample_record3]
       no_failures))"

section \<open>Properties\<close>

subsection \<open>Rows and upserts\<close>

lemma agents_do_update_eq: "a_agent_id r = a_agent_id e \<Longrightarrow> agents_do_update e r = e"
  by (cases r, cases e) (simp add: agents_do_update_def)

lemma snapshots_do_update_eq:
  "s_agent_id r = s_agent_id e \<Longrightarrow> s_snapshot_id r = s_snapshot_id e \<Longrightarrow>
   snapshots_do_update e r = e"
  by (cases r, cases e) (simp add: snapshots_do_update_def)

lemma replace_map_again:
  "map (\<lambda>r. if key r = key e then e else r) (map (\<lambda>r. if key r = key e then e else r) xs)
     = map (\<lambda>r. if key r = key e then e else r) xs"
  by (induction xs) auto

lemma replace_map_absent:
  "key e \<notin> set (map key xs) \<Longrightarrow> map (\<lambda>r. if key r = key e then e else r) xs = xs"
  by (induction xs) auto

lemma replace_map_keys:
  "map key (map (\<lambda>r. if key r = key e then e else r) xs) = map key xs"
  by (induction xs) auto

lemma agents_update_as_replace:
  "(\<lambda>r. if a_agent_id r = a_agent_id e then agents_do_update e r else r)
    = (\<lambda>r. if a_agent_id r = a_agent_id e then e else r)"
  by (auto simp: fun_eq_iff agents_do_update_eq)

lemma snapshots_update_as_replace:
  "(\<lambda>r. if (s_agent_id r, s_snapshot_id r) = (s_agent_id e, s_snapshot_id e)
         then snapshots_do_update e r else r)
    = (\<lambda>r. if (s_agent_id r, s_snapshot_id r) = (s_agent_id e, s_snapshot_id e) then e else r)"
  by (auto simp: fun_eq_iff snapshots_do_update_eq)

lemma upsert_list_has_key: "key e \<in> set (map key (upsert_list key e xs))"
proof (cases "key e \<in> set (map key xs)")
  case True
  then show ?thesis
    unfolding upsert_list_def by (simp only: if_True replace_map_keys)
next
  case False
  then show ?thesis
    unfolding upsert_list_def by simp
qed

lemma upsert_list_twice: "upsert_list key e (upsert_list key e xs) = upsert_list key e xs"
proof -
  have "upsert_list key e (upsert_list key e xs)
          = map (\<lambda>r. if key r = key e then e else r) (upsert_list key e xs)"
    using upsert_list_has_key [of key e xs] by (subst upsert_list_def) (simp only: if_True)
  also have "\<dots> = upsert_list key e xs"
  proof (cases "key e \<in> set (map key xs)")
    case True
    then show ?thesis
      unfolding upsert_list_def by (simp only: if_True replace_map_again)
  next
    case False
    then show ?thesis
      unfolding upsert_list_def using replace_map_absent [of key e xs] by simp
  qed
  finally show ?thesis .
qed

lemma sql_upsert_agent_eq:
  "sql_upsert_agent row db =
     (if \<not> has_relation Agents db then Inl UndefinedTable
      else if \<not> int4 (a_message_count row) \<or> \<not> int4 (a_last_sfp_index row)
           then Inl NumericValueOutOfRange
      else Inr (db\<lparr>agents := upsert_list a_agent_id row (agents db)\<rparr>))"
  unfolding sql_upsert_agent_def agents_update_as_replace upsert_list_def by simp

lemma sql_upsert_snapshot_eq:
  "sql_upsert_snapshot row db =
     (if \<not> has_relation Snapshots db then Inl UndefinedTable
      else if \<not> int4 (s_last_sfp_index row) then Inl NumericValueOutOfRange
      else if (s_agent_id row, s_snapshot_id row)
                 \<notin> set (map (\<lambda>r. (s_agent_id r, s_snapshot_id r)) (snapshots db)) \<and>
              s_agent_id row \<notin> set (map a_agent_id (agents db))
           then Inl ForeignKeyViolation
      else Inr (db\<lparr>snapshots :=
                   upsert_list (\<lambda>r. (s_agent_id r, s_snapshot_id r)) row (snapshots db)\<rparr>))"
  unfolding sql_upsert_snapshot_def snapshots_update_as_replace upsert_list_def by simp

lemma sql_upsert_agent_twice:
  assumes "sql_upsert_agent row db = Inr db'"
  shows "sql_upsert_agent row db' = Inr db'"
  using assms unfolding sql_upsert_agent_eq
  by (auto simp: has_relation_def upsert_list_twice split: if_splits)

lemma sql_upsert_snapshot_twice:
  assumes "sql_upsert_snapshot row db = Inr db'"
  shows "sql_upsert_snapshot row db' = Inr db'"
  using assms upsert_list_has_key [of "\<lambda>r. (s_agent_id r, s_snapshot_id r)" row "snapshots db"]
  unfolding sql_upsert_snapshot_eq
  by (auto simp: has_relation_def upsert_list_twice simp del: set_map split: if_splits)

lemma run_statement_twice:
  assumes "\<And>d d'. stmt d = Inr d' \<Longrightarrow> stmt d' = Inr d'"
  shows "run_statement stmt (snd (run_statement stmt db)) = run_statement stmt db"
  using assms by (auto simp: run_statement_def pg_query_def connect_def split: sum.splits)

text \<open>The ids \<^verbatim>\<open>generateMessageId\<close> makes from the sample readings.\<close>

lemma sample_ids:
  "generateMessageId (sample_readings 0) = ''msg_1700000000000_k3j5x9q2a''"
  "generateMessageId (sample_readings (Suc 0)) = ''msg_1700000000001_k3j5x9q2a''"
  "generateMessageId (sample_readings (Suc (Suc 0))) = ''msg_1700000000002_k3j5x9q2a''"
  "generateMessageId (sample_same_readings index) = ''msg_1700000000000_k3j5x9q2a''"
  by (simp_all add: sample_readings_def sample_same_readings_def generateMessageId_def
        decimal_def digits.simps)

lemmas sample_defs = sample_database_def sample_info_def sample_snapshot_def
  sample_messages_def sample_ids sample_now_def
  agent_row_def snapshot_row_def message_row_def
  run_statement_def pg_query_def connect_def pg_BEGIN_def pg_COMMIT_def pg_ROLLBACK_def
  client_query_def no_failures_def timestamp_in.simps bigint_in.simps js_number_or_null_def
  has_relation_def int4_def int8_def opt_int4_def opt_int8_def
  json_or_null_def string_or_null_def number_or_null_def
  agents_do_update_def snapshots_do_update_def

lemmas eval_defs = sample_defs sample_record_def sample_record2_def sample_populated_def
  saveMessages_def saveMessages_try_def saveToolCallRecords_def saveToolCallRecords_try_def
  saveSnapshot_def saveInfo_def delete_agent_def tool_call_row_def
  sql_delete_messages_def sql_insert_message_def sql_update_message_count_def
  sql_delete_tool_calls_def sql_insert_tool_call_def sql_upsert_snapshot_def sql_upsert_agent_def
  sql_delete_agent_def


subsection \<open>Saving twice\<close>

text \<open>
  C5. Running \<^verbatim>\<open>saveInfo\<close>, or \<^verbatim>\<open>saveSnapshot\<close>, a second time with the same
  arguments gives the outcome of the first run and leaves the database of the first run,
  row for row: the second call overwrites the one row with the key and adds none. So
  \<^verbatim>\<open>loadInfo\<close>, \<^verbatim>\<open>loadSnapshot\<close> and \<^verbatim>\<open>listSnapshots\<close> answer after the second run
  what they answer after the first.
\<close>

theorem save_twice_same_as_once:
  "saveInfo (snd (saveInfo db agentId info)) agentId info = saveInfo db agentId info \<and>
   saveSnapshot (snd (saveSnapshot db agentId snapshot)) agentId snapshot
     = saveSnapshot db agentId snapshot \<and>
   loadInfo (snd (saveInfo (snd (saveInfo db agentId info)) agentId info)) agentId
     = loadInfo (snd (saveInfo db agentId info)) agentId \<and>
   loadSnapshot (snd (saveSnapshot (snd (saveSnapshot db agentId snapshot)) agentId snapshot))
       agentId (snap_id snapshot)
     = loadSnapshot (snd (saveSnapshot db agentId snapshot)) agentId (snap_id snapshot) \<and>
   listSnapshots (snd (saveSnapshot (snd (saveSnapshot db agentId snapshot)) agentId snapshot)) agentId
     = listSnapshots (snd (saveSnapshot db agentId snapshot)) agentId"
proof -
  have i: "saveInfo (snd (saveInfo db agentId info)) agentId info = saveInfo db agentId info"
    unfolding saveInfo_def by (intro run_statement_twice sql_upsert_agent_twice)
  have s: "saveSnapshot (snd (saveSnapshot db agentId snapshot)) agentId snapshot
             = saveSnapshot db agentId snapshot"
    unfolding saveSnapshot_def by (intro run_statement_twice sql_upsert_snapshot_twice)
  show ?thesis
    by (simp only: i s)
qed

theorem save_twice_same_as_once_witness:
  "saveInfo sample_database ''agt:1'' sample_info = (None, sample_database) \<and>
   saveInfo (snd (saveInfo sample_database ''agt:1'' sample_info)) ''agt:1'' sample_info
     = (None, sample_database) \<and>
   fst (saveSnapshot sample_database ''agt:1'' sample_snapshot) = None \<and>
   snapshots (snd (saveSnapshot (snd (saveSnapshot sample_database ''agt:1'' sample_snapshot))
      ''agt:1'' sample_snapshot)) = [snapshot_row ''agt:1'' sample_snapshot]"
  using save_twice_same_as_once [of sample_database "''agt:1''" sample_info sample_snapshot]
  by (simp add: sample_defs saveInfo_def saveSnapshot_def sql_upsert_agent_def
        sql_upsert_snapshot_def)

subsection \<open>The transaction of saveMessages\<close>

lemma stored_rows_simps [simp]:
  "stored_rows A g n i [] = []"
  "stored_rows A g n i (m # ms) = message_row A g n i m # stored_rows A g n (Suc i) ms"
  by (simp_all add: stored_rows_def)

lemma client_query_simps [simp]:
  "client_query None query c = query c"
  "client_query (Some e) query c = (Some e, c)"
  by (simp_all add: client_query_def)

lemma client_query_cases:
  assumes "client_query f query c = (r, c')"
  shows "(\<exists>e. f = Some e \<and> r = Some e \<and> c' = c) \<or> (f = None \<and> query c = (r, c'))"
  using assms by (cases f) auto

lemma pg_query_in_txn:
  "txn c = Some w \<Longrightarrow>
   pg_query stmt c = (case stmt w of Inl e \<Rightarrow> (Some e, c) | Inr d \<Rightarrow> (None, c\<lparr>txn := Some d\<rparr>))"
  by (simp add: pg_query_def)

lemma pg_query_isolated:
  assumes "txn c \<noteq> None"
  shows "server (snd (pg_query stmt c)) = server c \<and> txn (snd (pg_query stmt c)) \<noteq> None"
  using assms by (auto simp: pg_query_def split: sum.splits)

lemma client_query_isolated:
  assumes "txn c \<noteq> None"
  shows "server (snd (client_query f (pg_query stmt) c)) = server c \<and>
         txn (snd (client_query f (pg_query stmt) c)) \<noteq> None"
  using pg_query_isolated [OF assms, of stmt] assms by (cases f) simp_all

lemma sql_insert_message_Inr:
  "sql_insert_message row w = Inr d \<Longrightarrow> d = w\<lparr>messages := messages w @ [row]\<rparr>"
  by (auto simp: sql_insert_message_def split: if_splits)

lemma insert_messages_in_txn:
  assumes "txn c = Some w" "insert_messages F A g n i ms c = (r, c')"
  shows "server c' = server c \<and>
         (r = None \<longrightarrow> txn c' = Some (w\<lparr>messages := messages w @ stored_rows A g n i ms\<rparr>))"
  using assms
proof (induction ms arbitrary: i c w)
  case Nil
  then show ?case by auto
next
  case (Cons m ms)
  show ?case
  proof (cases "F (At_INSERT i)")
    case (Some e)
    with Cons.prems show ?thesis by auto
  next
    case None
    show ?thesis
    proof (cases "sql_insert_message (message_row A g n i m) w")
      case (Inl e)
      with Cons.prems None show ?thesis by (auto simp: pg_query_in_txn)
    next
      case (Inr d)
      then have d: "d = w\<lparr>messages := messages w @ [message_row A g n i m]\<rparr>"
        by (rule sql_insert_message_Inr)
      from Cons.prems Inr None
      have rec: "insert_messages F A g n (Suc i) ms (c\<lparr>txn := Some d\<rparr>) = (r, c')"
        by (simp add: pg_query_in_txn)
      have "txn (c\<lparr>txn := Some d\<rparr>) = Some d" by simp
      from Cons.IH [OF this rec] show ?thesis by (simp add: d)
    qed
  qed
qed

lemma insert_messages_isolated:
  assumes "txn c \<noteq> None"
  shows "server (snd (insert_messages F A g n i ms c)) = server c \<and>
         txn (snd (insert_messages F A g n i ms c)) \<noteq> None"
  using assms
proof (induction ms arbitrary: i c)
  case Nil
  then show ?case by simp
next
  case (Cons m ms)
  let ?q = "client_query (F (At_INSERT i)) (pg_query (sql_insert_message (message_row A g n i m))) c"
  obtain r c' where q: "?q = (r, c')"
    by (cases ?q)
  with client_query_isolated [OF Cons.prems, of "F (At_INSERT i)"
      "sql_insert_message (message_row A g n i m)"]
  have c': "server c' = server c" "txn c' \<noteq> None" by simp_all
  show ?case
  proof (cases r)
    case None
    with q Cons.IH [OF c'(2), of "Suc i"] c' show ?thesis by simp
  next
    case (Some e)
    with q c' show ?thesis by simp
  qed
qed

lemma begin_connect:
  "pg_BEGIN (connect db) = (None, \<lparr>server = db, txn = Some db\<rparr>)"
  by (simp add: pg_BEGIN_def connect_def)

lemma saveMessages_try_result:
  assumes "saveMessages_try F A M g n (connect db) = (r, c)"
  shows "(r = None \<and> c = \<lparr>server = replaced db A M g n, txn = None\<rparr> \<and>
          has_relation Messages db \<and> has_relation Agents db) \<or>
         (r \<noteq> None \<and> server c = db)"
proof -
  let ?c0 = "\<lparr>server = db, txn = Some db\<rparr>"
  have t0: "txn ?c0 = Some db" by simp
  show ?thesis
  proof (cases "F At_BEGIN")
    case (Some e)
    with assms show ?thesis by (auto simp: saveMessages_try_def connect_def)
  next
    case b: None
    show ?thesis
    proof (cases "F At_DELETE")
      case (Some e)
      with assms b show ?thesis by (auto simp: saveMessages_try_def begin_connect)
    next
      case dl: None
      show ?thesis
      proof (cases "sql_delete_messages A db")
        case (Inl e)
        with assms b dl show ?thesis
          by (auto simp: saveMessages_try_def begin_connect pg_query_in_txn [OF t0])
      next
        case (Inr d1)
        then have d1: "d1 = db\<lparr>messages := filter (\<lambda>r. m_agent_id r \<noteq> A) (messages db)\<rparr>"
          and hm: "has_relation Messages db"
          by (auto simp: sql_delete_messages_def split: if_splits)
        define c1 where "c1 = ?c0\<lparr>txn := Some d1\<rparr>"
        have q1: "pg_query (sql_delete_messages A) ?c0 = (None, c1)"
          by (simp add: pg_query_in_txn [OF t0] Inr c1_def)
        have c1: "txn c1 = Some d1" "server c1 = db"
          by (simp_all add: c1_def)
        obtain r2 c2 where ins: "insert_messages F A g n 0 M c1 = (r2, c2)"
          by (cases "insert_messages F A g n 0 M c1")
        note i2 = insert_messages_in_txn [OF c1(1) ins]
        show ?thesis
        proof (cases r2)
          case (Some e)
          with assms b dl q1 ins i2 c1 show ?thesis
            by (auto simp: saveMessages_try_def begin_connect)
        next
          case None
          with i2 have t2: "txn c2 = Some (d1\<lparr>messages := messages d1 @ stored_rows A g n 0 M\<rparr>)"
            and s2: "server c2 = db"
            by (simp_all add: c1)
          show ?thesis
          proof (cases "F At_UPDATE")
            case (Some e)
            with assms b dl q1 ins None s2 show ?thesis
              by (auto simp: saveMessages_try_def begin_connect)
          next
            case up: None
            show ?thesis
            proof (cases "sql_update_message_count (int (length M)) A
                    (d1\<lparr>messages := messages d1 @ stored_rows A g n 0 M\<rparr>)")
              case (Inl e)
              with assms b dl up q1 ins None s2 show ?thesis
                by (auto simp: saveMessages_try_def begin_connect pg_query_in_txn [OF t2])
            next
              case (Inr d3)
              then have d3: "d3 = replaced db A M g n" and ha: "has_relation Agents db"
                by (auto simp: sql_update_message_count_def replaced_def d1 has_relation_def
                    split: if_splits)
              show ?thesis
              proof (cases "F At_COMMIT")
                case (Some e)
                with assms b dl up q1 ins None s2 Inr show ?thesis
                  by (auto simp: saveMessages_try_def begin_connect pg_query_in_txn [OF t2])
              next
                case cm: None
                with assms b dl up q1 ins None Inr hm ha d3 show ?thesis
                  by (auto simp: saveMessages_try_def begin_connect pg_query_in_txn [OF t2]
                      pg_COMMIT_def)
              qed
            qed
          qed
        qed
      qed
    qed
  qed
qed

lemma saveMessages_result:
  "(saveMessages db A M g n F = (None, \<lparr>server = replaced db A M g n, txn = None\<rparr>) \<and>
      has_relation Messages db \<and> has_relation Agents db) \<or>
   (\<exists>e c. saveMessages_try F A M g n (connect db) = (Some e, c) \<and> server c = db \<and>
      saveMessages db A M g n F =
        (case F At_ROLLBACK of
           None \<Rightarrow> (Some e, \<lparr>server = db, txn = None\<rparr>)
         | Some rollback_err \<Rightarrow> (Some rollback_err, c)))"
proof -
  obtain r c where t: "saveMessages_try F A M g n (connect db) = (r, c)"
    by (cases "saveMessages_try F A M g n (connect db)")
  from saveMessages_try_result [OF t] t show ?thesis
    by (cases "F At_ROLLBACK") (auto simp: saveMessages_def pg_ROLLBACK_def)
qed

lemma saveMessages_resolved:
  assumes "saveMessages db A M g n F = (None, c')"
  shows "c' = \<lparr>server = replaced db A M g n, txn = None\<rparr>"
    and "has_relation Messages db" and "has_relation Agents db"
  using saveMessages_result [of db A M g n F] assms
  by (auto split: option.splits)


text \<open>What \<^verbatim>\<open>saveMessages\<close> leaves, whatever fails. Either it resolves, and the client
  it releases has committed the old database with the rows of the agent in
  \<^verbatim>\<open>messages\<close> replaced by the rows of the new list and \<^verbatim>\<open>message_count\<close> of the agent's
  row set to the length of the list; or the \<^verbatim>\<open>try\<close> block threw, the committed database
  is the old one, and then: when the \<^verbatim>\<open>ROLLBACK\<close> resolves, the transaction is closed and
  the error thrown is the one of the \<^verbatim>\<open>try\<close> block; when the \<^verbatim>\<open>ROLLBACK\<close> rejects, the
  error thrown is that of the \<^verbatim>\<open>ROLLBACK\<close>. While the transaction is open the committed
  database, which is all another connection can read, is still the old one.\<close>

lemma saveMessages_outcome:
  "(saveMessages db agentId msgs readings now failures =
      (None,
       \<lparr>server =
          db\<lparr>messages := filter (\<lambda>r. m_agent_id r \<noteq> agentId) (messages db)
                 @ map (\<lambda>(i, msg). message_row agentId readings now i msg)
                     (enumerate 0 msgs),
             agents := map (\<lambda>r. if a_agent_id r = agentId
                                 then r\<lparr>a_message_count := int (length msgs)\<rparr> else r)
                         (agents db)\<rparr>,
        txn = None\<rparr>)
    \<or> (\<exists>err c. saveMessages_try failures agentId msgs readings now (connect db)
                  = (Some err, c) \<and>
          server (snd (saveMessages db agentId msgs readings now failures)) = db \<and>
          (case failures At_ROLLBACK of
             None \<Rightarrow>
               saveMessages db agentId msgs readings now failures
                 = (Some err, \<lparr>server = db, txn = None\<rparr>)
           | Some rollback_err \<Rightarrow>
               saveMessages db agentId msgs readings now failures
                 = (Some rollback_err, c))))
   \<and> (\<forall>k\<le>length msgs.
         server (snd (insert_messages failures agentId readings now 0 (take k msgs)
           (snd (client_query (failures At_DELETE) (pg_query (sql_delete_messages agentId))
              \<lparr>server = db, txn = Some db\<rparr>)))) = db)
   \<and> server (snd (client_query (failures At_UPDATE)
         (pg_query (sql_update_message_count (int (length msgs)) agentId))
         (snd (insert_messages failures agentId readings now 0 msgs
           (snd (client_query (failures At_DELETE) (pg_query (sql_delete_messages agentId))
              \<lparr>server = db, txn = Some db\<rparr>)))))) = db"
proof -
  let ?c0 = "\<lparr>server = db, txn = Some db\<rparr>"
  let ?c1 = "snd (client_query (failures At_DELETE) (pg_query (sql_delete_messages agentId)) ?c0)"
  have b: "txn ?c0 \<noteq> None" by simp
  from client_query_isolated [OF b, of "failures At_DELETE" "sql_delete_messages agentId"]
  have c1: "server ?c1 = db" "txn ?c1 \<noteq> None"
    by simp_all
  have loop: "server (snd (insert_messages failures agentId readings now 0 ms ?c1)) = db"
             "txn (snd (insert_messages failures agentId readings now 0 ms ?c1)) \<noteq> None"
    for ms
    using insert_messages_isolated [OF c1(2), of failures agentId readings now 0 ms] c1(1)
    by simp_all
  have upd: "server (snd (client_query (failures At_UPDATE)
         (pg_query (sql_update_message_count (int (length msgs)) agentId))
         (snd (insert_messages failures agentId readings now 0 msgs ?c1)))) = db"
    using client_query_isolated [OF loop(2) [of msgs], of "failures At_UPDATE"
        "sql_update_message_count (int (length msgs)) agentId"] loop(1) [of msgs]
    by simp
  have res: "saveMessages db agentId msgs readings now failures =
      (None, \<lparr>server = replaced db agentId msgs readings now, txn = None\<rparr>)
    \<or> (\<exists>err c. saveMessages_try failures agentId msgs readings now (connect db)
                  = (Some err, c) \<and>
          server (snd (saveMessages db agentId msgs readings now failures)) = db \<and>
          (case failures At_ROLLBACK of
             None \<Rightarrow>
               saveMessages db agentId msgs readings now failures
                 = (Some err, \<lparr>server = db, txn = None\<rparr>)
           | Some rollback_err \<Rightarrow>
               saveMessages db agentId msgs readings now failures
                 = (Some rollback_err, c)))"
    using saveMessages_result [of db agentId msgs readings now failures]
    by (cases "failures At_ROLLBACK") auto
  from res loop(1) upd show ?thesis
    unfolding replaced_def stored_rows_def by blast
qed

text \<open>
  C1 fails on the code: \<^verbatim>\<open>saveMessages\<close> does not always re-surface the original
  error. On the sample
  database holding three messages of agent \<^verbatim>\<open>agt:1\<close>, two messages are saved for which
  \<^verbatim>\<open>generateMessageId\<close> returns the same id. The second INSERT of the \<^verbatim>\<open>try\<close> block
  violates the primary key. When the \<^verbatim>\<open>ROLLBACK\<close> of the \<^verbatim>\<open>catch\<close> block resolves, the
  caller gets that unique violation, the transaction is closed and the database is the old
  one. When the \<^verbatim>\<open>ROLLBACK\<close> rejects because the connection is lost, the caller gets the
  connection failure instead of the unique violation, and the client is released with its
  transaction still open; the committed database is the old one.
\<close>

theorem saveMessages_rollback_rejected:
  "loadMessages sample_populated ''agt:1'' = Inr sample_messages \<and>
   fst (saveMessages_try no_failures ''agt:1'' (take 2 sample_messages) sample_same_readings sample_now
          (connect sample_populated)) = Some UniqueViolation \<and>
   saveMessages sample_populated ''agt:1'' (take 2 sample_messages) sample_same_readings sample_now
       no_failures
     = (Some UniqueViolation, \<lparr>server = sample_populated, txn = None\<rparr>) \<and>
   fst (saveMessages_try sample_lost_at_rollback ''agt:1'' (take 2 sample_messages) sample_same_readings
          sample_now (connect sample_populated)) = Some UniqueViolation \<and>
   fst (saveMessages sample_populated ''agt:1'' (take 2 sample_messages) sample_same_readings sample_now
          sample_lost_at_rollback) = Some ConnectionFailure \<and>
   server (snd (saveMessages sample_populated ''agt:1'' (take 2 sample_messages) sample_same_readings
          sample_now sample_lost_at_rollback)) = sample_populated \<and>
   txn (snd (saveMessages sample_populated ''agt:1'' (take 2 sample_messages) sample_same_readings
          sample_now sample_lost_at_rollback)) \<noteq> None"
proof -
  have l: "loadMessages sample_populated ''agt:1'' = Inr sample_messages"
    by (simp add: eval_defs loadMessages_def sql_select_messages_def message_of_row_def)
  have e1: "fst (saveMessages_try no_failures ''agt:1'' (take 2 sample_messages) sample_same_readings
      sample_now (connect sample_populated)) = Some UniqueViolation"
    by (simp add: eval_defs)
  have e2: "fst (saveMessages_try sample_lost_at_rollback ''agt:1'' (take 2 sample_messages)
      sample_same_readings sample_now (connect sample_populated)) = Some UniqueViolation"
    by (simp add: eval_defs sample_lost_at_rollback_def)
  have r1: "saveMessages sample_populated ''agt:1'' (take 2 sample_messages) sample_same_readings
      sample_now no_failures = (Some UniqueViolation, \<lparr>server = sample_populated, txn = None\<rparr>)"
    by (simp add: eval_defs)
  have r2: "fst (saveMessages sample_populated ''agt:1'' (take 2 sample_messages) sample_same_readings
          sample_now sample_lost_at_rollback) = Some ConnectionFailure"
    "server (snd (saveMessages sample_populated ''agt:1'' (take 2 sample_messages) sample_same_readings
          sample_now sample_lost_at_rollback)) = sample_populated"
    "txn (snd (saveMessages sample_populated ''agt:1'' (take 2 sample_messages) sample_same_readings
          sample_now sample_lost_at_rollback)) \<noteq> None"
    by (simp_all add: eval_defs sample_lost_at_rollback_def)
  show ?thesis
    by (intro conjI l e1 r1 e2 r2)
qed

subsection \<open>Loading what saveMessages stored\<close>

lemma json_or_null_object:
  "(case v of None \<Rightarrow> True | Some j \<Rightarrow> is_object j) \<Longrightarrow> json_or_null v = v"
  by (cases v; cases "the v") (auto simp: json_or_null_def)

lemma message_of_row_message_row:
  "well_typed_message msg \<Longrightarrow> message_of_row (message_row A g n i msg) = msg"
  by (simp add: message_of_row_def message_row_def well_typed_message_def json_or_null_object)

lemma stored_rows_agent: "r \<in> set (stored_rows A g n i ms) \<Longrightarrow> m_agent_id r = A"
  by (induction ms arbitrary: i) (auto simp: message_row_def)

lemma stored_rows_seq: "map m_seq (stored_rows A g n i ms) = map int [i..<i + length ms]"
  by (induction ms arbitrary: i) (simp_all add: message_row_def upt_conv_Cons del: upt_Suc)


lemma stored_rows_messages:
  "list_all well_typed_message ms \<Longrightarrow> map message_of_row (stored_rows A g n i ms) = ms"
  by (induction ms arbitrary: i) (auto simp: message_of_row_message_row)

lemma filter_agent_replaced:
  "filter (\<lambda>r. m_agent_id r = A) (messages (replaced db A M g n)) = stored_rows A g n 0 M"
proof -
  have "filter (\<lambda>r. m_agent_id r = A) (stored_rows A g n 0 M) = stored_rows A g n 0 M"
    by (rule filter_True) (simp add: stored_rows_agent)
  moreover have "filter (\<lambda>r. m_agent_id r = A) (filter (\<lambda>r. m_agent_id r \<noteq> A) (messages db)) = []"
    by (induction "messages db") auto
  ultimately show ?thesis by (simp add: replaced_def)
qed

lemma sorted_seq_stored_rows: "sorted (map m_seq (stored_rows A g n i ms))"
  by (simp add: stored_rows_seq sorted_map sorted_wrt_iff_nth_less)

lemma select_replaced:
  "has_relation Messages db \<Longrightarrow>
   sql_select_messages A (replaced db A M g n) = Inr (stored_rows A g n 0 M)"
  unfolding sql_select_messages_def filter_agent_replaced
  by (simp add: sort_key_id_if_sorted [OF sorted_seq_stored_rows] has_relation_def replaced_def)

lemma select_agent_replaced:
  assumes "A \<in> set (map a_agent_id (agents db))"
  shows "\<exists>row rest. filter (\<lambda>r. a_agent_id r = A) (agents (replaced db A M g n)) = row # rest \<and>
           a_message_count row = int (length M)"
proof -
  have "\<exists>row rest. filter (\<lambda>r. a_agent_id r = A)
           (map (\<lambda>r. if a_agent_id r = A then r\<lparr>a_message_count := k\<rparr> else r) xs) = row # rest \<and>
           a_message_count row = k" if "A \<in> set (map a_agent_id xs)" for xs k
    using that by (induction xs) auto
  from this [OF assms] show ?thesis by (simp add: replaced_def)
qed

text \<open>
  C2. For an agent that exists and a list of messages (each with its metadata, when
  present, a document), after \<^verbatim>\<open>saveMessages\<close> has resolved \<^verbatim>\<open>loadMessages\<close> returns
  exactly the messages of the list in their order, with role, content and metadata as
  given, and \<^verbatim>\<open>loadInfo\<close> returns an AgentInfo whose \<^verbatim>\<open>messageCount\<close> is the length of
  the list.
\<close>

theorem saveMessages_then_load:
  assumes "saveMessages db agentId msgs readings now failures = (None, c')"
    and "exists_agent db agentId = Inr True"
    and "list_all well_typed_message msgs"
  shows "txn c' = None \<and>
         loadMessages (server c') agentId = Inr msgs \<and>
         (\<exists>info. loadInfo (server c') agentId = Inr (Some info) \<and>
                 info_messageCount info = int (length msgs))"
proof -
  note r = saveMessages_resolved [OF assms(1)]
  from r(1) have db': "server c' = replaced db agentId msgs readings now"
    and tx: "txn c' = None"
    by simp_all
  note rel = r(2,3)
  from assms(2) have ex: "agentId \<in> set (map a_agent_id (agents db))"
    by (auto simp: exists_agent_def sql_select_agent_def filter_empty_conv split: if_splits)
  have "loadMessages (server c') agentId = Inr msgs"
    unfolding loadMessages_def db' select_replaced [OF rel(1)]
    by (simp add: stored_rows_messages [OF assms(3)])
  moreover from select_agent_replaced [OF ex, of msgs readings now] rel(2)
  have "\<exists>info. loadInfo (server c') agentId = Inr (Some info) \<and>
                 info_messageCount info = int (length msgs)"
    by (auto simp: loadInfo_def sql_select_agent_def db' has_relation_def replaced_def info_of_row_def)
  ultimately show ?thesis using tx by blast
qed

theorem saveMessages_then_load_witness:
  "exists_agent sample_database ''agt:1'' = Inr True \<and>
   list_all well_typed_message sample_messages \<and>
   fst (saveMessages sample_database ''agt:1'' sample_messages sample_readings sample_now
          no_failures) = None \<and>
   txn (snd (saveMessages sample_database ''agt:1'' sample_messages sample_readings
          sample_now no_failures)) = None \<and>
   loadMessages (server (snd (saveMessages sample_database ''agt:1'' sample_messages
      sample_readings sample_now no_failures))) ''agt:1'' = Inr sample_messages \<and>
   (\<exists>info. loadInfo (server (snd (saveMessages sample_database ''agt:1'' sample_messages
      sample_readings sample_now no_failures))) ''agt:1'' = Inr (Some info) \<and>
      info_messageCount info = 3)"
proof -
  let ?c = "snd (saveMessages sample_database ''agt:1'' sample_messages sample_readings
      sample_now no_failures)"
  have h0: "fst (saveMessages sample_database ''agt:1'' sample_messages sample_readings
      sample_now no_failures) = None"
    by (simp add: sample_defs saveMessages_def saveMessages_try_def sql_delete_messages_def
          sql_insert_message_def sql_update_message_count_def)
  then have h1: "saveMessages sample_database ''agt:1'' sample_messages sample_readings
      sample_now no_failures = (None, ?c)"
    by (simp add: prod_eq_iff)
  have h2: "exists_agent sample_database ''agt:1'' = Inr True"
    by (simp add: sample_defs exists_agent_def sql_select_agent_def)
  have h3: "list_all well_typed_message sample_messages"
    by (simp add: sample_messages_def well_typed_message_def)
  have l: "int (length sample_messages) = 3"
    by (simp add: sample_messages_def)
  note t = saveMessages_then_load [OF h1 h2 h3, unfolded l]
  show ?thesis
    by (intro conjI h2 h3 h0 t [THEN conjunct1] t [THEN conjunct2, THEN conjunct1]
        t [THEN conjunct2, THEN conjunct2])
qed
subsection \<open>What the statements of saveMessages keep true\<close>










subsection \<open>Loading what saveInfo stored\<close>





text \<open>The \<^verbatim>\<open>createdAt\<close> that \<^verbatim>\<open>loadInfo\<close> returns is the \<^verbatim>\<open>Date\<close> the driver made of the
  TIMESTAMP column, never the ISO string that was saved.\<close>

lemma loadInfo_createdAt:
  assumes "loadInfo db agentId = Inr (Some info)"
  shows "\<exists>w. info_createdAt info = DateObject w"
  using assms
  by (auto simp: loadInfo_def info_of_row_def split: sum.splits list.splits)



subsection \<open>The constraints hold in every database the store reaches\<close>





















text \<open>The sample databases are among them.\<close>

lemma sample_database_reachable: "reachable sample_database"
proof -
  have eq: "sample_database = snd (saveInfo (snd (initialize fresh_database)) ''agt:1'' sample_info)"
    by (simp add: eval_defs initialize_def createTables_def createIndexes_def
          createTables_statements_def createIndexes_statements_def sql_create_table_def
          sql_create_indexes_def fresh_database_def)
  show ?thesis
    by (subst eq) (intro reachable.intros)
qed

lemma sample_populated_reachable: "reachable sample_populated"
  unfolding sample_populated_def
  by (intro reachable.intros sample_database_reachable)

subsection \<open>Sequence numbers and row ids\<close>

text \<open>Two ids that \<^verbatim>\<open>generateMessageId\<close> makes are the same only when the clock showed the
  same millisecond and the nine characters taken from the random number are the same.\<close>

lemma digit_char_mem: "n < 10 \<Longrightarrow> ''0123456789'' ! n \<in> set ''0123456789''"
  by (rule nth_mem) simp

lemma digits_no_underscore: "CHR ''_'' \<notin> set (digits n)"
proof (induction n rule: digits.induct)
  case (1 n)
  show ?case
  proof (cases "n < 10")
    case True
    with digit_char_mem [OF True] show ?thesis
      by (subst digits.simps) auto
  next
    case False
    have "n mod 10 < 10" by simp
    from digit_char_mem [OF this] 1 [OF False] False show ?thesis
      by (subst digits.simps) auto
  qed
qed

lemma digit_value_nth: "n < 10 \<Longrightarrow> digit_value (''0123456789'' ! n) = n"
proof -
  assume "n < 10"
  then have "n \<in> {0, 1, 2, 3, 4, 5, 6, 7, 8, 9}" by auto
  then show ?thesis by (auto simp: digit_value_def)
qed

lemma digits_value: "foldl (\<lambda>acc c. 10 * acc + digit_value c) 0 (digits n) = n"
proof (induction n rule: digits.induct)
  case (1 n)
  show ?case
  proof (cases "n < 10")
    case True
    then show ?thesis
      by (subst digits.simps) (simp add: digit_value_nth)
  next
    case False
    have "n mod 10 < 10" by simp
    from digit_value_nth [OF this] 1 [OF False] False show ?thesis
      by (subst digits.simps) simp
  qed
qed

lemma digits_inject:
  assumes "digits m = digits n"
  shows "m = n"
proof -
  have "foldl (\<lambda>acc c. 10 * acc + digit_value c) 0 (digits m)
      = foldl (\<lambda>acc c. 10 * acc + digit_value c) 0 (digits n)"
    by (simp only: assms)
  then show ?thesis
    by (simp only: digits_value)
qed

lemma decimal_inject:
  assumes "0 \<le> s" "0 \<le> t" "decimal s = decimal t"
  shows "s = t"
proof -
  from assms have "digits (nat s) = digits (nat t)"
    by (simp add: decimal_def)
  then have "nat s = nat t" by (rule digits_inject)
  with assms(1,2) show ?thesis by simp
qed

lemma append_separator_eq_iff:
  "x \<notin> set xs \<Longrightarrow> x \<notin> set xs' \<Longrightarrow>
   xs @ x # ys = xs' @ x # ys' \<longleftrightarrow> xs = xs' \<and> ys = ys'"
proof (induction xs arbitrary: xs')
  case Nil
  then show ?case by (cases xs') auto
next
  case (Cons a xs)
  then show ?case by (cases xs') auto
qed

lemma generateMessageId_eq_iff:
  assumes "0 \<le> s" "0 \<le> t"
  shows "generateMessageId (s, r) = generateMessageId (t, r') \<longleftrightarrow>
         s = t \<and> take 9 (drop 2 r) = take 9 (drop 2 r')"
proof -
  have u: "CHR ''_'' \<notin> set (decimal s)" "CHR ''_'' \<notin> set (decimal t)"
    using assms by (simp_all add: decimal_def digits_no_underscore)
  have "generateMessageId (s, r) = generateMessageId (t, r') \<longleftrightarrow>
        decimal s @ CHR ''_'' # take 9 (drop 2 r) = decimal t @ CHR ''_'' # take 9 (drop 2 r')"
    by (simp add: generateMessageId_def)
  also have "\<dots> \<longleftrightarrow> decimal s = decimal t \<and> take 9 (drop 2 r) = take 9 (drop 2 r')"
    by (rule append_separator_eq_iff [OF u])
  finally show ?thesis
    using decimal_inject [OF assms] by auto
qed








subsection \<open>Deleting an agent\<close>

lemma filter_filter_not: "filter P (filter (\<lambda>r. \<not> P r) xs) = []"
  by (induction xs) auto

lemma filter_none: "list_all (\<lambda>r. \<not> P r) xs \<Longrightarrow> filter P xs = []"
  by (induction xs) auto

text \<open>
  C3. On an initialised database whose rows satisfy the foreign keys (as they do in every
  database the store reaches, by \<open>reachable_constraints\<close>), \<^verbatim>\<open>delete\<close> resolves, and
  afterwards \<^verbatim>\<open>exists\<close> is false for the agent and \<^verbatim>\<open>loadMessages\<close>,
  \<^verbatim>\<open>loadToolCallRecords\<close> and \<^verbatim>\<open>listSnapshots\<close> return the empty list for it; the
  foreign keys still hold, so no dependent row is left without its agent.
\<close>

theorem delete_removes_dependents:
  assumes "initialized db"
    and "foreign_keys_hold db"
  shows "fst (delete_agent db agentId) = None \<and>
         exists_agent (snd (delete_agent db agentId)) agentId = Inr False \<and>
         loadMessages (snd (delete_agent db agentId)) agentId = Inr [] \<and>
         loadToolCallRecords (snd (delete_agent db agentId)) agentId = Inr [] \<and>
         listSnapshots (snd (delete_agent db agentId)) agentId = Inr [] \<and>
         foreign_keys_hold (snd (delete_agent db agentId))"
proof (cases "agentId \<in> set (map a_agent_id (agents db))")
  case True
  define db' where "db' =
      db\<lparr>agents := filter (\<lambda>r. a_agent_id r \<noteq> agentId) (agents db),
         messages := filter (\<lambda>r. m_agent_id r \<noteq> agentId) (messages db),
         tool_calls := filter (\<lambda>r. t_agent_id r \<noteq> agentId) (tool_calls db),
         snapshots := filter (\<lambda>r. s_agent_id r \<noteq> agentId) (snapshots db)\<rparr>"
  from True assms(1) have del: "delete_agent db agentId = (None, db')"
    by (simp add: delete_agent_def run_statement_def pg_query_def connect_def
          sql_delete_agent_def initialized_def db'_def)
  have fk: "foreign_keys_hold db'"
    using assms(2) unfolding foreign_keys_hold_def db'_def
    by (auto simp: list_all_iff)
  from assms(1) have "exists_agent db' agentId = Inr False \<and>
         loadMessages db' agentId = Inr [] \<and>
         loadToolCallRecords db' agentId = Inr [] \<and>
         listSnapshots db' agentId = Inr []"
    by (simp add: db'_def initialized_def has_relation_def exists_agent_def sql_select_agent_def
          loadMessages_def sql_select_messages_def loadToolCallRecords_def
          sql_select_tool_calls_def listSnapshots_def sql_select_snapshots_def filter_filter_not)
  with fk show ?thesis by (simp add: del)
next
  case False
  with assms(1) have del: "delete_agent db agentId = (None, db)"
    by (simp add: delete_agent_def run_statement_def pg_query_def connect_def
          sql_delete_agent_def initialized_def)
  from False have a: "filter (\<lambda>r. a_agent_id r = agentId) (agents db) = []"
    by (auto simp: filter_empty_conv)
  from False assms(2) have
    m: "filter (\<lambda>r. m_agent_id r = agentId) (messages db) = []" and
    t: "filter (\<lambda>r. t_agent_id r = agentId) (tool_calls db) = []" and
    s: "filter (\<lambda>r. s_agent_id r = agentId) (snapshots db) = []"
    by (auto simp: foreign_keys_hold_def list_all_iff filter_empty_conv)
  from assms show ?thesis
    by (simp add: del a m t s initialized_def has_relation_def exists_agent_def
          sql_select_agent_def loadMessages_def sql_select_messages_def loadToolCallRecords_def
          sql_select_tool_calls_def listSnapshots_def sql_select_snapshots_def)
qed

lemma sample_populated_value:
  "messages sample_populated = stored_rows ''agt:1'' sample_readings sample_now 0 sample_messages"
  "tool_calls sample_populated = map (tool_call_row ''agt:1'') [sample_record, sample_record2]"
  "snapshots sample_populated = [snapshot_row ''agt:1'' sample_snapshot]"
  "map a_agent_id (agents sample_populated) = [''agt:1'']"
  "relations sample_populated = [Agents, Messages, ToolCalls, Snapshots]"
  "idx_messages_agent_seq sample_populated"
  by (simp_all add: eval_defs stored_rows_def)

theorem delete_removes_dependents_witness:
  "initialized sample_populated \<and> foreign_keys_hold sample_populated \<and>
   loadMessages sample_populated ''agt:1'' = Inr sample_messages \<and>
   fst (delete_agent sample_populated ''agt:1'') = None \<and>
   exists_agent (snd (delete_agent sample_populated ''agt:1'')) ''agt:1'' = Inr False \<and>
   loadMessages (snd (delete_agent sample_populated ''agt:1'')) ''agt:1'' = Inr [] \<and>
   loadToolCallRecords (snd (delete_agent sample_populated ''agt:1'')) ''agt:1'' = Inr [] \<and>
   listSnapshots (snd (delete_agent sample_populated ''agt:1'')) ''agt:1'' = Inr []"
proof -
  have h1: "initialized sample_populated"
    by (simp add: initialized_def has_relation_def sample_populated_value)
  have h2: "foreign_keys_hold sample_populated"
    by (simp add: foreign_keys_hold_def sample_populated_value stored_rows_def
          sample_messages_def message_row_def tool_call_row_def snapshot_row_def)
  have h3: "loadMessages sample_populated ''agt:1'' = Inr sample_messages"
    by (simp add: loadMessages_def sql_select_messages_def has_relation_def
          sample_populated_value stored_rows_def sample_messages_def message_row_def
          message_of_row_def json_or_null_def)
  note t = delete_removes_dependents [OF h1 h2, of "''agt:1''"]
  show ?thesis
    by (intro conjI h1 h2 h3 t [THEN conjunct1] t [THEN conjunct2, THEN conjunct1]
          t [THEN conjunct2, THEN conjunct2, THEN conjunct1]
          t [THEN conjunct2, THEN conjunct2, THEN conjunct2, THEN conjunct1]
          t [THEN conjunct2, THEN conjunct2, THEN conjunct2, THEN conjunct2, THEN conjunct1])
qed

subsection \<open>Tool-call records\<close>

text \<open>What a record is read back as: the optional fields that are falsy are gone, and
  the four timestamps are the decimal strings the driver returns for BIGINT columns.\<close>

lemma tool_call_of_row_tool_call_row:
  "tool_call_of_row (tool_call_row agentId rec) =
     rec\<lparr>tc_result := json_or_null (tc_result rec),
         tc_error := string_or_null (tc_error rec),
         tc_startedAt :=
           map_option (\<lambda>v. NumericString (bigint_in v)) (js_number_or_null (tc_startedAt rec)),
         tc_completedAt :=
           map_option (\<lambda>v. NumericString (bigint_in v)) (js_number_or_null (tc_completedAt rec)),
         tc_durationMs := number_or_null (tc_durationMs rec),
         tc_createdAt := NumericString (bigint_in (tc_createdAt rec)),
         tc_updatedAt := NumericString (bigint_in (tc_updatedAt rec))\<rparr>"
  by (cases rec)
     (auto simp: tool_call_of_row_def tool_call_row_def json_or_null_def string_or_null_def
        number_or_null_def js_number_or_null_def split: option.splits)

text \<open>
  C6 fails on the code. A record whose \<^verbatim>\<open>durationMs\<close> is 0 (a call that started and
  completed within one millisecond) is saved by \<^verbatim>\<open>saveToolCallRecords\<close> with
  \<^verbatim>\<open>record.durationMs || null\<close>, which stores NULL for 0, and \<^verbatim>\<open>loadToolCallRecords\<close>
  returns it without a \<^verbatim>\<open>durationMs\<close>. The timestamps \<^verbatim>\<open>startedAt\<close>, \<^verbatim>\<open>completedAt\<close>,
  \<^verbatim>\<open>createdAt\<close> and \<^verbatim>\<open>updatedAt\<close>, saved as numbers, are returned as the strings the
  driver makes of BIGINT columns.
\<close>

theorem saveToolCallRecords_zero_duration:
  "tc_durationMs sample_record = Some 0 \<and>
   tc_startedAt sample_record = Some (Number 1700000000000) \<and>
   tc_completedAt sample_record = Some (Number 1700000000000) \<and>
   tc_createdAt sample_record = Number 1700000000000 \<and>
   tc_updatedAt sample_record = Number 1700000000000 \<and>
   fst (saveToolCallRecords sample_database ''agt:1'' [sample_record] no_failures) = None \<and>
   loadToolCallRecords
       (server (snd (saveToolCallRecords sample_database ''agt:1'' [sample_record] no_failures)))
       ''agt:1''
     = Inr [sample_record\<lparr>tc_durationMs := None,
                           tc_startedAt := Some (NumericString 1700000000000),
                           tc_completedAt := Some (NumericString 1700000000000),
                           tc_createdAt := NumericString 1700000000000,
                           tc_updatedAt := NumericString 1700000000000\<rparr>]"
  by (simp add: eval_defs loadToolCallRecords_def sql_select_tool_calls_def tool_call_of_row_def)
subsection \<open>Listing agents\<close>

text \<open>For a prefix without \<^verbatim>\<open>%\<close>, \<^verbatim>\<open>_\<close> and backslash the pattern of \<^verbatim>\<open>list\<close>
  matches exactly the strings the prefix is a prefix of.\<close>

lemma like_match_percent: "like_match ''%'' s"
  by (induction s) auto

lemma like_match_plain_prefix:
  assumes "CHR ''%'' \<notin> set p" "CHR ''_'' \<notin> set p" "CHR 0x5C \<notin> set p"
  shows "like_match (p @ ''%'') s = prefix p s"
  using assms
proof (induction p arbitrary: s)
  case Nil
  then show ?case by (simp add: like_match_percent)
next
  case (Cons c p)
  then show ?case by (cases s) auto
qed

text \<open>
  C8 fails on the code. The prefix goes into the \<^verbatim>\<open>LIKE\<close> pattern as it is, so its
  \<^verbatim>\<open>_\<close> matches any character: with the agents \<^verbatim>\<open>agt:pg_1\<close> and \<^verbatim>\<open>agt:pgX1\<close> stored,
  \<^verbatim>\<open>list('agt:pg_')\<close> returns both, though \<^verbatim>\<open>agt:pg_\<close> is not a prefix of
  \<^verbatim>\<open>agt:pgX1\<close>. The order is by \<^verbatim>\<open>createdAt\<close>, latest first, with or without a prefix.
\<close>

theorem list_agents_wildcard:
  "list_agents sample_agents (Some ''agt:pg_'') = Inr [''agt:pgX1'', ''agt:pg_1''] \<and>
   \<not> prefix ''agt:pg_'' ''agt:pgX1'' \<and>
   list_agents sample_agents None = Inr [''agt:pgX1'', ''agt:pg_1'', ''agt:1'']"
  by (simp add: eval_defs sample_agents_def list_agents_def sql_select_agent_ids_def)

subsection \<open>Statistics\<close>

lemma own_set_new: "k \<notin> set (map fst acc) \<Longrightarrow> own_set k v acc = acc @ [(k, v)]"
  by (induction acc) auto

lemma foldl_obj_set_distinct:
  "distinct (map fst (acc @ rows)) \<Longrightarrow>
   foldl (\<lambda>acc row. obj_set (fst row) (snd row) acc) acc rows
     = acc @ filter (\<lambda>row. fst row \<noteq> ''__proto__'') rows"
proof (induction rows arbitrary: acc)
  case Nil
  then show ?case by simp
next
  case (Cons row rows)
  show ?case
  proof (cases "fst row = ''__proto__''")
    case True
    from Cons.prems have "distinct (map fst (acc @ rows))" by simp
    from Cons.IH [OF this] True show ?thesis
      by (simp add: obj_set_def)
  next
    case False
    from Cons.prems have new: "fst row \<notin> set (map fst acc)" by auto
    from Cons.prems have "distinct (map fst ((acc @ [row]) @ rows))" by simp
    from Cons.IH [OF this] False show ?thesis
      by (simp add: obj_set_def own_set_new [OF new])
  qed
qed

lemma count_list_filter: "P k \<Longrightarrow> count_list (filter P ks) k = count_list ks k"
  by (induction ks) auto

text \<open>The object the reducer builds holds the groups of the query other than the group
  of \<^verbatim>\<open>__proto__\<close>.\<close>

lemma reduce_counts_group:
  "reduce_counts (sql_group_count ks) = sql_group_count (filter (\<lambda>k. k \<noteq> ''__proto__'') ks)"
proof -
  have "map fst (sql_group_count ks) = remdups ks"
    by (simp add: sql_group_count_def o_def)
  then have "distinct (map fst ([] @ sql_group_count ks))" by simp
  from foldl_obj_set_distinct [OF this]
  have "reduce_counts (sql_group_count ks)
      = filter (\<lambda>row. fst row \<noteq> ''__proto__'') (sql_group_count ks)"
    by (simp add: reduce_counts_def)
  also have "\<dots> = map (\<lambda>k. (k, count_list ks k)) (filter (\<lambda>k. k \<noteq> ''__proto__'') (remdups ks))"
    by (simp add: sql_group_count_def filter_map o_def)
  also have "\<dots> = map (\<lambda>k. (k, count_list (filter (\<lambda>k. k \<noteq> ''__proto__'') ks) k))
                     (filter (\<lambda>k. k \<noteq> ''__proto__'') (remdups ks))"
    by (rule map_cong) (simp_all add: count_list_filter)
  also have "\<dots> = sql_group_count (filter (\<lambda>k. k \<noteq> ''__proto__'') ks)"
    by (simp add: sql_group_count_def remdups_filter)
  finally show ?thesis .
qed

lemma sum_group_count: "sum_list (map snd (sql_group_count ks)) = length ks"
proof -
  have "sum_list (map snd (sql_group_count ks)) = sum_list (map (count_list ks) (remdups ks))"
    by (simp add: sql_group_count_def o_def)
  also have "\<dots> = sum (count_list ks) (set ks)"
    by (simp add: sum_list_distinct_conv_sum_set)
  also have "\<dots> = length ks"
    by (rule sum_count_set) simp_all
  finally show ?thesis .
qed

lemma length_filter_sort_key: "length (filter P (sort_key f xs)) = length (filter P xs)"
  by (simp add: filter_sort)

text \<open>What \<^verbatim>\<open>aggregateStats\<close> returns on every database. When it resolves,
  \<^verbatim>\<open>loadMessages\<close>, \<^verbatim>\<open>loadToolCallRecords\<close> and \<^verbatim>\<open>listSnapshots\<close> resolve on the same
  database and \<^verbatim>\<open>totalMessages\<close>, \<^verbatim>\<open>totalToolCalls\<close>, \<^verbatim>\<open>totalSnapshots\<close> are the lengths
  of the lists they return; the counts by name add up to the number of loaded records
  whose name is not \<^verbatim>\<open>__proto__\<close>, and the counts by state to the number of those whose
  state is not \<^verbatim>\<open>__proto__\<close>.\<close>

lemma aggregateStats_counts:
  assumes "aggregateStats db agentId = Inr stats"
  shows "\<exists>msgs recs snaps.
           loadMessages db agentId = Inr msgs \<and>
           loadToolCallRecords db agentId = Inr recs \<and>
           listSnapshots db agentId = Inr snaps \<and>
           totalMessages stats = length msgs \<and>
           totalToolCalls stats = length recs \<and>
           totalSnapshots stats = length snaps \<and>
           sum_list (map snd (toolCallsByName stats))
             = length (filter (\<lambda>r. tc_name r \<noteq> ''__proto__'') recs) \<and>
           sum_list (map snd (toolCallsByState stats))
             = length (filter (\<lambda>r. tc_state r \<noteq> ''__proto__'') recs)"
proof -
  let ?ms = "filter (\<lambda>r. m_agent_id r = agentId) (messages db)"
  let ?ts = "filter (\<lambda>r. t_agent_id r = agentId) (tool_calls db)"
  let ?ss = "filter (\<lambda>r. s_agent_id r = agentId) (snapshots db)"
  from assms have rel: "has_relation Messages db" "has_relation ToolCalls db"
      "has_relation Snapshots db"
    and stats: "stats = \<lparr>totalMessages = length ?ms, totalToolCalls = length ?ts,
        totalSnapshots = length ?ss, avgMessagesPerSession = length ?ms,
        toolCallsByName = sql_group_count (filter (\<lambda>k. k \<noteq> ''__proto__'') (map t_name ?ts)),
        toolCallsByState = sql_group_count (filter (\<lambda>k. k \<noteq> ''__proto__'') (map t_state ?ts))\<rparr>"
    by (auto simp: aggregateStats_def sql_count_messages_def sql_count_tool_calls_def
          sql_count_snapshots_def sql_tool_calls_by_name_def sql_tool_calls_by_state_def
          reduce_counts_group split: if_splits)
  let ?recs = "map tool_call_of_row (sort_key t_created_at ?ts)"
  have l: "loadMessages db agentId = Inr (map message_of_row (sort_key m_seq ?ms))"
    "loadToolCallRecords db agentId = Inr ?recs"
    "listSnapshots db agentId = Inr (map snapshot_of_row (sort_key (\<lambda>r. - s_created_at r) ?ss))"
    using rel by (simp_all add: loadMessages_def sql_select_messages_def loadToolCallRecords_def
          sql_select_tool_calls_def listSnapshots_def sql_select_snapshots_def)
  have n: "tc_name (tool_call_of_row r) = t_name r" "tc_state (tool_call_of_row r) = t_state r" for r
    by (simp_all add: tool_call_of_row_def)
  have cnt: "length (filter (\<lambda>r. tc_name r \<noteq> ''__proto__'') ?recs)
        = length (filter (\<lambda>k. k \<noteq> ''__proto__'') (map t_name ?ts))"
    "length (filter (\<lambda>r. tc_state r \<noteq> ''__proto__'') ?recs)
        = length (filter (\<lambda>k. k \<noteq> ''__proto__'') (map t_state ?ts))"
    by (simp_all add: filter_map o_def n length_filter_sort_key)
  have totals: "totalMessages stats = length (map message_of_row (sort_key m_seq ?ms))"
    "totalToolCalls stats = length ?recs"
    "totalSnapshots stats = length (map snapshot_of_row (sort_key (\<lambda>r. - s_created_at r) ?ss))"
    by (simp_all add: stats)
  have sums: "sum_list (map snd (toolCallsByName stats))
        = length (filter (\<lambda>r. tc_name r \<noteq> ''__proto__'') ?recs)"
    "sum_list (map snd (toolCallsByState stats))
        = length (filter (\<lambda>r. tc_state r \<noteq> ''__proto__'') ?recs)"
    unfolding cnt by (simp_all add: stats sum_group_count)
  show ?thesis
    using l totals sums by blast
qed

text \<open>
  C9 fails on the code. The agent has two tool calls, one of the tool \<^verbatim>\<open>fs_read\<close> and
  one of a tool named \<^verbatim>\<open>__proto__\<close>. \<^verbatim>\<open>loadToolCallRecords\<close> returns both and
  \<^verbatim>\<open>totalToolCalls\<close> is 2, but \<^verbatim>\<open>acc[row.name] = parseInt(row.count)\<close> sets no
  property for the group \<^verbatim>\<open>__proto__\<close>: \<^verbatim>\<open>toolCallsByName\<close> has the one entry
  \<^verbatim>\<open>fs_read\<close>, and its counts add up to 1. The counts by state add up to 2.
\<close>

theorem aggregateStats_proto_name:
  "map_sum id (map tc_name) (loadToolCallRecords sample_tools ''agt:1'')
     = Inr [''fs_read'', ''__proto__''] \<and>
   aggregateStats sample_tools ''agt:1'' =
     Inr \<lparr>totalMessages = 0, totalToolCalls = 2, totalSnapshots = 0, avgMessagesPerSession = 0,
          toolCallsByName = [(''fs_read'', 1)],
          toolCallsByState = [(''COMPLETED'', 1), (''FAILED'', 1)]\<rparr> \<and>
   map_sum id totalToolCalls (aggregateStats sample_tools ''agt:1'') = Inr 2 \<and>
   map_sum id (\<lambda>stats. sum_list (map snd (toolCallsByName stats)))
       (aggregateStats sample_tools ''agt:1'') = Inr 1 \<and>
   map_sum id (\<lambda>stats. sum_list (map snd (toolCallsByState stats)))
       (aggregateStats sample_tools ''agt:1'') = Inr 2"
proof -
  have v: "tool_calls sample_tools = map (tool_call_row ''agt:1'') [sample_record, sample_record3]"
    "messages sample_tools = []" "snapshots sample_tools = []"
    "relations sample_tools = [Agents, Messages, ToolCalls, Snapshots]"
    by (simp_all add: eval_defs sample_tools_def sample_record3_def)
  have l: "map_sum id (map tc_name) (loadToolCallRecords sample_tools ''agt:1'')
     = Inr [''fs_read'', ''__proto__'']"
    by (simp add: loadToolCallRecords_def sql_select_tool_calls_def has_relation_def v
          tool_call_row_def tool_call_of_row_def sample_record_def sample_record2_def
          sample_record3_def)
  have a: "aggregateStats sample_tools ''agt:1'' =
     Inr \<lparr>totalMessages = 0, totalToolCalls = 2, totalSnapshots = 0, avgMessagesPerSession = 0,
          toolCallsByName = [(''fs_read'', 1)],
          toolCallsByState = [(''COMPLETED'', 1), (''FAILED'', 1)]\<rparr>"
    by (simp add: aggregateStats_def sql_count_messages_def sql_count_tool_calls_def
          sql_count_snapshots_def sql_tool_calls_by_name_def sql_tool_calls_by_state_def
          sql_group_count_def reduce_counts_def obj_set_def has_relation_def v
          tool_call_row_def sample_record_def sample_record2_def sample_record3_def)
  show ?thesis
    unfolding a by (simp add: l)
qed
subsection \<open>Writes before initialisation has finished\<close>

text \<open>No write checks whether \<^verbatim>\<open>initialize\<close> has finished: it is sent to the backend as
  it is. When the relation it writes to does not exist, the write fails with the backend's
  own undefined-table error, and the database is unchanged.\<close>

lemma write_without_relation:
  "(\<not> has_relation Agents db \<longrightarrow> saveInfo db agentId info = (Some UndefinedTable, db)) \<and>
   (\<not> has_relation Messages db \<longrightarrow>
      saveMessages db agentId msgs readings now no_failures
        = (Some UndefinedTable, \<lparr>server = db, txn = None\<rparr>)) \<and>
   (\<not> has_relation ToolCalls db \<longrightarrow>
      saveToolCallRecords db agentId records no_failures
        = (Some UndefinedTable, \<lparr>server = db, txn = None\<rparr>)) \<and>
   (\<not> has_relation Snapshots db \<longrightarrow> saveSnapshot db agentId snapshot = (Some UndefinedTable, db))"
  by (simp add: saveInfo_def saveSnapshot_def saveMessages_def saveMessages_try_def
        saveToolCallRecords_def saveToolCallRecords_try_def run_statement_def pg_query_def
        pg_BEGIN_def pg_ROLLBACK_def connect_def sql_upsert_agent_def sql_upsert_snapshot_def
        sql_delete_messages_def sql_delete_tool_calls_def no_failures_def client_query_def)

text \<open>
  C7 fails on the code. The constructor starts \<^verbatim>\<open>initialize\<close> and no method waits for
  it. A write called before the first CREATE TABLE has run (on the fresh database) fails
  with the backend's undefined-table error, which is not an error of the store's own. A
  write called when \<^verbatim>\<open>createTables\<close> has finished and \<^verbatim>\<open>createIndexes\<close> has not (the
  four relations exist, the unique index does not: initialisation is not complete) is
  carried out: \<^verbatim>\<open>saveInfo\<close> resolves, and after it \<^verbatim>\<open>saveMessages\<close>,
  \<^verbatim>\<open>saveToolCallRecords\<close> and \<^verbatim>\<open>saveSnapshot\<close> resolve and store their rows.
\<close>

theorem write_before_initialized:
  "\<not> initialized fresh_database \<and>
   saveInfo fresh_database ''agt:1'' sample_info = (Some UndefinedTable, fresh_database) \<and>
   saveMessages fresh_database ''agt:1'' sample_messages sample_readings sample_now no_failures
     = (Some UndefinedTable, \<lparr>server = fresh_database, txn = None\<rparr>) \<and>
   saveToolCallRecords fresh_database ''agt:1'' [sample_record] no_failures
     = (Some UndefinedTable, \<lparr>server = fresh_database, txn = None\<rparr>) \<and>
   saveSnapshot fresh_database ''agt:1'' sample_snapshot = (Some UndefinedTable, fresh_database) \<and>
   initialize_upto 4 fresh_database = (None, sample_uninitialized) \<and>
   \<not> initialized sample_uninitialized \<and>
   saveInfo sample_uninitialized ''agt:1'' sample_info = (None, sample_early_agent) \<and>
   map a_agent_id (agents sample_early_agent) = [''agt:1''] \<and>
   fst (saveMessages sample_early_agent ''agt:1'' sample_messages sample_readings sample_now
          no_failures) = None \<and>
   loadMessages (server (snd (saveMessages sample_early_agent ''agt:1'' sample_messages
          sample_readings sample_now no_failures))) ''agt:1'' = Inr sample_messages \<and>
   fst (saveToolCallRecords sample_early_agent ''agt:1'' [sample_record2] no_failures) = None \<and>
   map t_id (tool_calls (server (snd (saveToolCallRecords sample_early_agent ''agt:1''
          [sample_record2] no_failures)))) = [''call_2''] \<and>
   fst (saveSnapshot sample_early_agent ''agt:1'' sample_snapshot) = None \<and>
   map s_snapshot_id (snapshots (snd (saveSnapshot sample_early_agent ''agt:1'' sample_snapshot)))
     = [''snap:1'']"
proof -
  have i: "\<not> initialized fresh_database" "\<not> initialized sample_uninitialized"
    by (simp_all add: initialized_def has_relation_def fresh_database_def sample_uninitialized_def)
  have f: "saveInfo fresh_database ''agt:1'' sample_info = (Some UndefinedTable, fresh_database)"
    "saveMessages fresh_database ''agt:1'' sample_messages sample_readings sample_now no_failures
       = (Some UndefinedTable, \<lparr>server = fresh_database, txn = None\<rparr>)"
    "saveToolCallRecords fresh_database ''agt:1'' [sample_record] no_failures
       = (Some UndefinedTable, \<lparr>server = fresh_database, txn = None\<rparr>)"
    "saveSnapshot fresh_database ''agt:1'' sample_snapshot = (Some UndefinedTable, fresh_database)"
    by (simp_all add: saveInfo_def saveSnapshot_def saveMessages_def saveMessages_try_def
        saveToolCallRecords_def saveToolCallRecords_try_def run_statement_def pg_query_def
        pg_BEGIN_def pg_ROLLBACK_def connect_def sql_upsert_agent_def sql_upsert_snapshot_def
        sql_delete_messages_def sql_delete_tool_calls_def no_failures_def client_query_def
        has_relation_def fresh_database_def)
  have u: "initialize_upto 4 fresh_database = (None, sample_uninitialized)"
    by (simp add: initialize_upto_def createTables_statements_def createIndexes_statements_def
          sql_create_table_def fresh_database_def sample_uninitialized_def connect_def
          pg_query_def has_relation_def)
  have a: "saveInfo sample_uninitialized ''agt:1'' sample_info = (None, sample_early_agent)"
    "map a_agent_id (agents sample_early_agent) = [''agt:1'']"
    by (simp_all add: sample_early_agent_def sample_uninitialized_def fresh_database_def
          sample_defs saveInfo_def sql_upsert_agent_def)
  have m: "fst (saveMessages sample_early_agent ''agt:1'' sample_messages sample_readings
          sample_now no_failures) = None"
    "loadMessages (server (snd (saveMessages sample_early_agent ''agt:1'' sample_messages
          sample_readings sample_now no_failures))) ''agt:1'' = Inr sample_messages"
    by (simp_all add: sample_early_agent_def sample_uninitialized_def fresh_database_def
          eval_defs loadMessages_def sql_select_messages_def message_of_row_def)
  have t: "fst (saveToolCallRecords sample_early_agent ''agt:1'' [sample_record2] no_failures)
          = None"
    "map t_id (tool_calls (server (snd (saveToolCallRecords sample_early_agent ''agt:1''
          [sample_record2] no_failures)))) = [''call_2'']"
    by (simp_all add: sample_early_agent_def sample_uninitialized_def fresh_database_def
          eval_defs)
  have s: "fst (saveSnapshot sample_early_agent ''agt:1'' sample_snapshot) = None"
    "map s_snapshot_id (snapshots (snd (saveSnapshot sample_early_agent ''agt:1''
          sample_snapshot))) = [''snap:1'']"
    by (simp_all add: sample_early_agent_def sample_uninitialized_def fresh_database_def
          eval_defs)
  show ?thesis
    by (intro conjI i f u a m t s)
qed


end
